theory Spec2Isabelle
  imports Main "HOL-Library.Word"
begin

section \<open>The contract LightPollution_FHE\<close>

text \<open>
  A shallow embedding of the Solidity contract \<open>LightPollution_FHE\<close>. Storage is a
  record that every function takes and returns; a revert is a value of type \<open>error\<close>
  on the left of a sum. Solidity mappings are total: a key that was never written reads
  as the all-zero value, so they are functions, not partial maps.
\<close>

subsection \<open>Value types\<close>

type_synonym uint256 = "256 word"
type_synonym uint32 = "32 word"
type_synonym bytes32 = "256 word"
type_synonym address = "160 word"
type_synonym bytes = "8 word list"

text \<open>
  \<open>euint32\<close> is the library's handle type, a user-defined value type over \<open>bytes32\<close>;
  its default value in storage is the zero handle.
\<close>

type_synonym euint32 = "256 word"

text \<open>
  The source declares the plaintext fields with a type \<open>float\<close>. The values are only
  stored and copied, never computed with; they are modelled as integers.
\<close>

type_synonym float = int

subsection \<open>Structs, events and storage\<close>

record EncryptedObservation =
  observerId :: uint256
  encryptedBrightness :: euint32
  encryptedLatitude :: euint32
  encryptedLongitude :: euint32
  encryptedTimestamp :: euint32
  submissionTime :: uint256

record DecryptedObservation =
  brightness :: float
  latitude :: float
  longitude :: float
  timestamp :: uint256
  isRevealed :: bool

datatype event =
    ObservationSubmitted uint256 uint256
  | DecryptionRequested uint256
  | ObservationDecrypted uint256
  | PollutionMapUpdated uint256

record contract_state =
  observationCount :: uint256
  encryptedObservations :: "uint256 \<Rightarrow> EncryptedObservation"
  decryptedObservations :: "uint256 \<Rightarrow> DecryptedObservation"
  encryptedRegionStats :: "string \<Rightarrow> euint32"
  regionList :: "string list"
  requestToObservationId :: "uint256 \<Rightarrow> uint256"
  events :: "event list"

text \<open>The values every storage slot holds before the first write.\<close>

definition zero_encrypted :: EncryptedObservation where
  "zero_encrypted =
     \<lparr>observerId = 0, encryptedBrightness = 0, encryptedLatitude = 0,
      encryptedLongitude = 0, encryptedTimestamp = 0, submissionTime = 0\<rparr>"

definition zero_decrypted :: DecryptedObservation where
  "zero_decrypted =
     \<lparr>brightness = 0, latitude = 0, longitude = 0, timestamp = 0, isRevealed = False\<rparr>"

definition initial_state :: contract_state where
  "initial_state =
     \<lparr>observationCount = 0,
      encryptedObservations = (\<lambda>_. zero_encrypted),
      decryptedObservations = (\<lambda>_. zero_decrypted),
      encryptedRegionStats = (\<lambda>_. 0),
      regionList = [],
      requestToObservationId = (\<lambda>_. 0),
      events = []\<rparr>"

subsection \<open>What the contract imports\<close>

text \<open>
  The library \<open>@fhevm/solidity\<close> and the EVM built-ins are not part of the repository.
  The pure ones are the fields of \<open>fhe_library\<close>, a parameter of every function:
  \<open>FHE.isInitialized\<close>, \<open>FHE.asEuint32\<close>, \<open>FHE.toBytes32\<close>, \<open>FHE.div\<close>,
  \<open>FHE.checkSignatures\<close> (\<open>True\<close> when it returns, \<open>False\<close> when it reverts),
  \<open>abi.decode\<close> of the cleartexts (\<open>None\<close> when it reverts) and
  \<open>keccak256(abi.encodePacked(_))\<close> of a string.
\<close>

record fhe_library =
  isInitialized :: "euint32 \<Rightarrow> bool"
  asEuint32 :: "uint32 \<Rightarrow> euint32"
  toBytes32 :: "euint32 \<Rightarrow> bytes32"
  FHE_div :: "euint32 \<Rightarrow> euint32 \<Rightarrow> euint32"
  checkSignatures :: "uint256 \<Rightarrow> bytes \<Rightarrow> bytes \<Rightarrow> bool"
  abi_decode :: "bytes \<Rightarrow> float list option"
  keccak256_packed :: "string \<Rightarrow> bytes32"

text \<open>
  What changes from one transaction to the next: the caller, the block time, and the
  answer of \<open>FHE.requestDecryption\<close> to the handles it is given (the request identity
  it issues, \<open>None\<close> when the library reverts). The callback selector it also receives
  is a constant of the contract and is left out.
\<close>

record tx_env =
  msg_sender :: address
  block_timestamp :: uint256
  requestDecryption :: "bytes32 list \<Rightarrow> uint256 option"

subsection \<open>Reverts\<close>

text \<open>
  The first four are the \<open>require\<close> and library failures of the source, under the
  names the specification gives them: "Already decrypted", "Invalid request",
  "Region not found", and a revert of \<open>FHE.checkSignatures\<close>. The next four are the
  other ways a call of the source can revert: checked arithmetic overflow, an array index
  out of bounds, \<open>abi.decode\<close> on malformed bytes, a revert inside
  \<open>FHE.requestDecryption\<close>. The last three are error kinds of the specification
  that no revert of the source produces.
\<close>

datatype error =
    AlreadyRevealed
  | UnknownRequest
  | RegionNotFound
  | ProofVerificationFailed
  | Panic_Overflow
  | Panic_IndexOutOfBounds
  | DecodeFailed
  | LibraryRevert
  | NotFound
  | RequestAlreadyPending
  | Unauthorized

subsection \<open>The functions of the contract\<close>

text \<open>The modifier \<open>onlyObserver\<close>: its body is the placeholder \<open>_;\<close> alone.\<close>

definition onlyObserver :: "uint256 \<Rightarrow> 'a \<Rightarrow> 'a" where
  "onlyObserver observer body = body"

text \<open>
  \<open>submitEncryptedObservation\<close>. The increment of \<open>observationCount\<close> is checked
  (Solidity 0.8) and reverts at the largest value.
\<close>

definition submitEncryptedObservation ::
  "fhe_library \<Rightarrow> tx_env \<Rightarrow> contract_state \<Rightarrow>
   euint32 \<Rightarrow> euint32 \<Rightarrow> euint32 \<Rightarrow> euint32 \<Rightarrow> string \<Rightarrow> error + contract_state" where
  "submitEncryptedObservation fhe tx s encBrightness encLatitude encLongitude encTimestamp regionCode =
     (if \<not> unat (observationCount s) + 1 < 2 ^ 256 then Inl Panic_Overflow
      else
        let newId = observationCount s + 1;
            s1 = s\<lparr>observationCount := newId\<rparr>;
            s2 = s1\<lparr>encryptedObservations := (encryptedObservations s1)(newId :=
                   \<lparr>observerId = newId,
                    encryptedBrightness = encBrightness,
                    encryptedLatitude = encLatitude,
                    encryptedLongitude = encLongitude,
                    encryptedTimestamp = encTimestamp,
                    submissionTime = block_timestamp tx\<rparr>)\<rparr>;
            s3 = s2\<lparr>decryptedObservations := (decryptedObservations s2)(newId :=
                   \<lparr>brightness = 0, latitude = 0, longitude = 0, timestamp = 0,
                    isRevealed = False\<rparr>)\<rparr>;
            s4 = (if \<not> isInitialized fhe (encryptedRegionStats s3 regionCode)
                  then s3\<lparr>encryptedRegionStats :=
                            (encryptedRegionStats s3)(regionCode := asEuint32 fhe 0),
                          regionList := regionList s3 @ [regionCode]\<rparr>
                  else s3)
        in Inr (s4\<lparr>events := events s4 @ [ObservationSubmitted newId (block_timestamp tx)]\<rparr>))"

text \<open>
  \<open>requestObservationDecryption\<close>. The caller \<open>msg_sender tx\<close> is never read: the
  modifier is applied to the owner field of the stored record and does nothing.
\<close>

definition requestObservationDecryption ::
  "fhe_library \<Rightarrow> tx_env \<Rightarrow> contract_state \<Rightarrow> uint256 \<Rightarrow> error + contract_state" where
  "requestObservationDecryption fhe tx s observationId =
     onlyObserver (observerId (encryptedObservations s observationId))
       (let obs = encryptedObservations s observationId in
        if isRevealed (decryptedObservations s observationId) then Inl AlreadyRevealed
        else
          let ciphertexts =
                [toBytes32 fhe (encryptedBrightness obs),
                 toBytes32 fhe (encryptedLatitude obs),
                 toBytes32 fhe (encryptedLongitude obs),
                 toBytes32 fhe (encryptedTimestamp obs)]
          in case requestDecryption tx ciphertexts of
               None \<Rightarrow> Inl LibraryRevert
             | Some reqId \<Rightarrow>
                 Inr (s\<lparr>requestToObservationId :=
                          (requestToObservationId s)(reqId := observationId),
                        events := events s @ [DecryptionRequested observationId]\<rparr>))"

text \<open>
  \<open>decryptObservation\<close>, statement by statement. A failure carries the storage as it
  is at the failing statement, so that the order of checks and writes can be read off;
  writes to the storage reference \<open>dObs\<close> go through \<open>update_decrypted\<close>. The source
  converts the fourth value with \<open>uint256(_)\<close>.
\<close>

definition update_decrypted ::
  "contract_state \<Rightarrow> uint256 \<Rightarrow> (DecryptedObservation \<Rightarrow> DecryptedObservation) \<Rightarrow> contract_state" where
  "update_decrypted s i f =
     s\<lparr>decryptedObservations := (decryptedObservations s)(i := f (decryptedObservations s i))\<rparr>"

definition float_to_uint256 :: "float \<Rightarrow> uint256" where
  "float_to_uint256 x = word_of_int x"

definition decryptObservation_body ::
  "fhe_library \<Rightarrow> contract_state \<Rightarrow> uint256 \<Rightarrow> bytes \<Rightarrow> bytes \<Rightarrow>
   (error \<times> contract_state) + contract_state" where
  "decryptObservation_body fhe s requestId cleartexts prf =
     (let observationId = requestToObservationId s requestId in
      if \<not> observationId \<noteq> 0 then Inl (UnknownRequest, s)
      else if \<not> \<not> isRevealed (decryptedObservations s observationId)
        then Inl (AlreadyRevealed, s)
      else if \<not> checkSignatures fhe requestId cleartexts prf
        then Inl (ProofVerificationFailed, s)
      else case abi_decode fhe cleartexts of
          None \<Rightarrow> Inl (DecodeFailed, s)
        | Some results \<Rightarrow>
            if \<not> 0 < length results then Inl (Panic_IndexOutOfBounds, s)
            else let s1 = update_decrypted s observationId (\<lambda>d. d\<lparr>brightness := results ! 0\<rparr>) in
            if \<not> 1 < length results then Inl (Panic_IndexOutOfBounds, s1)
            else let s2 = update_decrypted s1 observationId (\<lambda>d. d\<lparr>latitude := results ! 1\<rparr>) in
            if \<not> 2 < length results then Inl (Panic_IndexOutOfBounds, s2)
            else let s3 = update_decrypted s2 observationId (\<lambda>d. d\<lparr>longitude := results ! 2\<rparr>) in
            if \<not> 3 < length results then Inl (Panic_IndexOutOfBounds, s3)
            else let s4 = update_decrypted s3 observationId
                            (\<lambda>d. d\<lparr>timestamp := float_to_uint256 (results ! 3)\<rparr>);
                     s5 = update_decrypted s4 observationId (\<lambda>d. d\<lparr>isRevealed := True\<rparr>)
            in Inr (s5\<lparr>events := events s5 @ [ObservationDecrypted observationId]\<rparr>))"

text \<open>The transaction: a revert discards whatever the body wrote.\<close>

definition decryptObservation ::
  "fhe_library \<Rightarrow> contract_state \<Rightarrow> uint256 \<Rightarrow> bytes \<Rightarrow> bytes \<Rightarrow> error + contract_state" where
  "decryptObservation fhe s requestId cleartexts prf =
     (case decryptObservation_body fhe s requestId cleartexts prf of
        Inl (e, _) \<Rightarrow> Inl e
      | Inr s' \<Rightarrow> Inr s')"

text \<open>\<open>calculateRegionalBrightness\<close> returns a handle and emits an event.\<close>

definition calculateRegionalBrightness ::
  "fhe_library \<Rightarrow> contract_state \<Rightarrow> string \<Rightarrow> error + (euint32 \<times> contract_state)" where
  "calculateRegionalBrightness fhe s regionCode =
     (if \<not> isInitialized fhe (encryptedRegionStats s regionCode) then Inl RegionNotFound
      else
        let regionalAvg = FHE_div fhe (encryptedRegionStats s regionCode)
                            (asEuint32 fhe (ucast (observationCount s)))
        in Inr (regionalAvg,
                s\<lparr>events := events s @ [PollutionMapUpdated (keccak256_packed fhe regionCode)]\<rparr>))"

text \<open>
  The two readers: \<open>getDecryptedObservation\<close> and the getter that \<open>public\<close> generates
  for \<open>encryptedObservations\<close>. Neither has a \<open>require\<close>.
\<close>

definition getDecryptedObservation ::
  "contract_state \<Rightarrow> uint256 \<Rightarrow> error + (float \<times> float \<times> float \<times> uint256 \<times> bool)" where
  "getDecryptedObservation s observationId =
     (let d = decryptedObservations s observationId
      in Inr (brightness d, latitude d, longitude d, timestamp d, isRevealed d))"

definition getEncryptedObservation ::
  "contract_state \<Rightarrow> uint256 \<Rightarrow> error + EncryptedObservation" where
  "getEncryptedObservation s observationId = Inr (encryptedObservations s observationId)"

subsection \<open>Transactions and reachable states\<close>

datatype call =
    Submit euint32 euint32 euint32 euint32 string
  | RequestReveal uint256
  | Fulfill uint256 bytes bytes
  | RegionalAverage string

fun transact :: "fhe_library \<Rightarrow> tx_env \<Rightarrow> call \<Rightarrow> contract_state \<Rightarrow> error + contract_state" where
  "transact fhe tx (Submit b la lo ts regionCode) s =
     submitEncryptedObservation fhe tx s b la lo ts regionCode"
| "transact fhe tx (RequestReveal observationId) s =
     requestObservationDecryption fhe tx s observationId"
| "transact fhe tx (Fulfill requestId cleartexts prf) s =
     decryptObservation fhe s requestId cleartexts prf"
| "transact fhe tx (RegionalAverage regionCode) s =
     map_sum id snd (calculateRegionalBrightness fhe s regionCode)"

text \<open>A sequence of transactions; one that reverts leaves the storage as it was.\<close>

fun run :: "fhe_library \<Rightarrow> (tx_env \<times> call) list \<Rightarrow> contract_state \<Rightarrow> contract_state" where
  "run fhe [] s = s"
| "run fhe ((tx, c) # rest) s =
     (case transact fhe tx c s of Inl _ \<Rightarrow> run fhe rest s | Inr s' \<Rightarrow> run fhe rest s')"

inductive reachable :: "fhe_library \<Rightarrow> contract_state \<Rightarrow> bool" for fhe where
  reachable_init: "reachable fhe initial_state"
| reachable_step: "reachable fhe s \<Longrightarrow> transact fhe tx c s = Inr s' \<Longrightarrow> reachable fhe s'"

subsection \<open>Reading a trace\<close>

fun is_submit :: "call \<Rightarrow> bool" where
  "is_submit (Submit _ _ _ _ _) = True"
| "is_submit _ = False"

definition all_submits :: "(tx_env \<times> call) list \<Rightarrow> bool" where
  "all_submits tr = list_all (\<lambda>(tx, c). is_submit c) tr"

text \<open>
  \<open>submitEncryptedObservation\<close> returns nothing; the identity it assigns is the one it
  emits in \<open>ObservationSubmitted\<close>.
\<close>

fun submitted_ids :: "event list \<Rightarrow> uint256 list" where
  "submitted_ids [] = []"
| "submitted_ids (ObservationSubmitted i t # es) = i # submitted_ids es"
| "submitted_ids (_ # es) = submitted_ids es"

fun region_codes :: "(tx_env \<times> call) list \<Rightarrow> string list" where
  "region_codes [] = []"
| "region_codes ((tx, Submit b la lo ts regionCode) # rest) = regionCode # region_codes rest"
| "region_codes (_ # rest) = region_codes rest"

fun is_request :: "call \<Rightarrow> bool" where
  "is_request (RequestReveal _) = True"
| "is_request _ = False"

subsection \<open>A library to run examples with\<close>

text \<open>
  The stand-in's \<open>abi.decode\<close> reads the ABI encoding of a dynamic array of 32-byte
  words: a word holding the offset 32, a word holding the length, then the elements, every
  word big-endian. Bytes too short for the two head words or for the announced elements,
  or with another offset, make it revert; the empty byte string is one of them.
\<close>

definition be_uint256 :: "bytes \<Rightarrow> uint256" where
  "be_uint256 bs = foldl (\<lambda>acc b. acc * 256 + ucast b) 0 bs"

definition abi_decode_array :: "bytes \<Rightarrow> float list option" where
  "abi_decode_array bs =
     (if length bs < 64 \<or> be_uint256 (take 32 bs) \<noteq> 32 then None
      else
        let n = unat (be_uint256 (take 32 (drop 32 bs)))
        in if length bs < 64 + 32 * n then None
           else Some (map (\<lambda>k. uint (be_uint256 (take 32 (drop (64 + 32 * k) bs)))) [0 ..< n]))"

text \<open>
  The cleartexts of the examples: the encoding of the array 21, 48, 2, 1700000000, in
  192 bytes (1700000000 is 65 53 F1 00 in hexadecimal).
\<close>

definition sample_cleartexts :: bytes where
  "sample_cleartexts =
     replicate 31 0 @ [32] @ replicate 31 0 @ [4] @
     replicate 31 0 @ [21] @ replicate 31 0 @ [48] @ replicate 31 0 @ [2] @
     replicate 28 0 @ [101, 83, 241, 0]"

text \<open>
  A plaintext pass-through stand-in for the library: the handle of a value is the value
  plus one, so that the zero handle is the uninitialized one; every proof is accepted;
  cleartexts are decoded as above. \<open>stub_tx sender reqId\<close> is a transaction sent by
  \<open>sender\<close> in which the library issues the request identity \<open>reqId\<close>.
\<close>

definition stub_fhe :: fhe_library where
  "stub_fhe =
     \<lparr>isInitialized = (\<lambda>h. h \<noteq> 0),
      asEuint32 = (\<lambda>v. ucast v + 1),
      toBytes32 = (\<lambda>h. h),
      FHE_div = (\<lambda>a b. (a - 1) div (b - 1) + 1),
      checkSignatures = (\<lambda>_ _ _. True),
      abi_decode = abi_decode_array,
      keccak256_packed = (\<lambda>_. 0)\<rparr>"

definition stub_tx :: "address \<Rightarrow> uint256 \<Rightarrow> tx_env" where
  "stub_tx sender reqId =
     \<lparr>msg_sender = sender, block_timestamp = 1000, requestDecryption = (\<lambda>_. Some reqId)\<rparr>"

text \<open>The same library with a signature check that refuses everything.\<close>

definition reject_fhe :: fhe_library where
  "reject_fhe = stub_fhe\<lparr>checkSignatures := (\<lambda>_ _ _. False)\<rparr>"

section \<open>Properties\<close>

lemmas contract_defs =
  submitEncryptedObservation_def requestObservationDecryption_def onlyObserver_def
  decryptObservation_def decryptObservation_body_def update_decrypted_def
  calculateRegionalBrightness_def getDecryptedObservation_def getEncryptedObservation_def

lemmas stub_defs =
  stub_fhe_def stub_tx_def reject_fhe_def initial_state_def zero_decrypted_def zero_encrypted_def

subsection \<open>The cleartexts of the examples\<close>

lemma be_uint256_zeros:
  "foldl (\<lambda>acc b. acc * 256 + ucast b) (0::uint256) (replicate n (0::8 word)) = 0"
  by (induction n) simp_all

lemma be_uint256_pad: "be_uint256 (replicate n 0 @ bs) = be_uint256 bs"
  by (simp add: be_uint256_def be_uint256_zeros)

lemma decode_sample: "abi_decode_array sample_cleartexts = Some [21, 48, 2, 1700000000]"
proof -
  have len: "length sample_cleartexts = 192" by (simp add: sample_cleartexts_def)
  have o: "be_uint256 (take 32 sample_cleartexts) = 32"
    by (simp add: sample_cleartexts_def be_uint256_pad) (simp add: be_uint256_def)
  have n: "be_uint256 (take 32 (drop 32 sample_cleartexts)) = 4"
    by (simp add: sample_cleartexts_def be_uint256_pad) (simp add: be_uint256_def)
  have up: "[0 ..< 4] = [0, 1, 2, 3::nat]" by (simp add: upt_conv_Cons)
  have w: "uint (be_uint256 (take 32 (drop 64 sample_cleartexts))) = 21"
     "uint (be_uint256 (take 32 (drop 96 sample_cleartexts))) = 48"
     "uint (be_uint256 (take 32 (drop 128 sample_cleartexts))) = 2"
     "uint (be_uint256 (drop 160 sample_cleartexts)) = 1700000000"
    by (simp_all add: sample_cleartexts_def be_uint256_pad) (simp_all add: be_uint256_def)
  show ?thesis
    unfolding abi_decode_array_def by (simp add: n o len up w Let_def)
qed

lemma decode_empty: "abi_decode_array [] = None"
  by (simp add: abi_decode_array_def)

subsection \<open>What a successful call changes\<close>

lemma unat_succ:
  "unat (c::uint256) + 1 < 2 ^ 256 \<Longrightarrow> unat (c + 1) = unat c + 1"
  by (simp add: unat_word_ariths)

lemma word_succ_facts:
  assumes "unat (c::uint256) + 1 < 2 ^ 256" "i \<le> c"
  shows "i \<noteq> c + 1" "i \<le> c + 1"
proof -
  have a: "unat (c + 1) = unat c + 1" using assms(1) by (rule unat_succ)
  have b: "unat i \<le> unat c" using assms(2) by (simp add: word_le_nat_alt)
  from a b show "i \<noteq> c + 1" by auto
  from a b show "i \<le> c + 1" by (simp add: word_le_nat_alt)
qed

lemma word_succ_lt:
  assumes "unat (c::uint256) + 1 < 2 ^ 256" "c + 1 < i"
  shows "c < i"
proof -
  have a: "unat (c + 1) = unat c + 1" using assms(1) by (rule unat_succ)
  show ?thesis using assms(2) a by (simp add: word_less_nat_alt)
qed

lemma submit_Inr:
  "submitEncryptedObservation fhe tx s b la lo ts rc = Inr s' \<Longrightarrow>
   unat (observationCount s) + 1 < 2 ^ 256 \<and>
   observationCount s' = observationCount s + 1 \<and>
   decryptedObservations s' = (decryptedObservations s)(observationCount s + 1 := zero_decrypted) \<and>
   encryptedObservations s' = (encryptedObservations s)(observationCount s + 1 :=
       \<lparr>observerId = observationCount s + 1, encryptedBrightness = b, encryptedLatitude = la,
        encryptedLongitude = lo, encryptedTimestamp = ts, submissionTime = block_timestamp tx\<rparr>) \<and>
   requestToObservationId s' = requestToObservationId s \<and>
   events s' = events s @ [ObservationSubmitted (observationCount s + 1) (block_timestamp tx)] \<and>
   regionList s' =
     (if isInitialized fhe (encryptedRegionStats s rc) then regionList s else regionList s @ [rc]) \<and>
   encryptedRegionStats s' =
     (if isInitialized fhe (encryptedRegionStats s rc) then encryptedRegionStats s
      else (encryptedRegionStats s)(rc := asEuint32 fhe 0))"
  by (auto simp: submitEncryptedObservation_def Let_def zero_decrypted_def split: if_splits)

lemma submit_succeeds:
  "unat (observationCount s) + 1 < 2 ^ 256 \<Longrightarrow>
   \<exists>s'. submitEncryptedObservation fhe tx s b la lo ts rc = Inr s'"
  by (simp add: submitEncryptedObservation_def Let_def)

lemma submit_overflow:
  "\<not> unat (observationCount s) + 1 < 2 ^ 256 \<Longrightarrow>
   submitEncryptedObservation fhe tx s b la lo ts rc = Inl Panic_Overflow"
  by (simp add: submitEncryptedObservation_def)

lemma request_Inr:
  "requestObservationDecryption fhe tx s i = Inr s' \<Longrightarrow>
   observationCount s' = observationCount s \<and>
   decryptedObservations s' = decryptedObservations s \<and>
   encryptedObservations s' = encryptedObservations s \<and>
   regionList s' = regionList s \<and> encryptedRegionStats s' = encryptedRegionStats s"
  by (auto simp: requestObservationDecryption_def onlyObserver_def Let_def
           split: if_splits option.splits)

lemma decrypt_Inr:
  "decryptObservation fhe s r c p = Inr s' \<Longrightarrow>
   observationCount s' = observationCount s \<and>
   encryptedObservations s' = encryptedObservations s \<and>
   regionList s' = regionList s \<and> encryptedRegionStats s' = encryptedRegionStats s \<and>
   requestToObservationId s' = requestToObservationId s \<and>
   requestToObservationId s r \<noteq> 0 \<and>
   isRevealed (decryptedObservations s' (requestToObservationId s r)) \<and>
   (\<forall>i. i \<noteq> requestToObservationId s r \<longrightarrow>
        decryptedObservations s' i = decryptedObservations s i)"
  by (auto simp: decryptObservation_def decryptObservation_body_def update_decrypted_def Let_def
           split: if_splits option.splits sum.splits prod.splits)

lemma regional_Inr:
  "calculateRegionalBrightness fhe s rc = Inr (h, s') \<Longrightarrow>
   observationCount s' = observationCount s \<and>
   decryptedObservations s' = decryptedObservations s \<and>
   encryptedObservations s' = encryptedObservations s \<and>
   regionList s' = regionList s \<and> encryptedRegionStats s' = encryptedRegionStats s \<and>
   requestToObservationId s' = requestToObservationId s"
  by (auto simp: calculateRegionalBrightness_def Let_def split: if_splits)

subsection \<open>Sequences of transactions\<close>

lemma run_append: "run fhe (a @ b) s = run fhe b (run fhe a s)"
proof (induction a arbitrary: s)
  case Nil
  then show ?case by simp
next
  case (Cons x a)
  obtain tx c where x: "x = (tx, c)" by (cases x)
  show ?case using Cons.IH x by (cases "transact fhe tx c s") simp_all
qed

lemma submitted_ids_append:
  "submitted_ids (es @ fs) = submitted_ids es @ submitted_ids fs"
  by (induction es rule: submitted_ids.induct) simp_all

lemma take_all_submits:
  "all_submits tr \<Longrightarrow> all_submits (take n tr) \<and> all_submits (drop n tr)"
  unfolding all_submits_def list_all_iff by (auto dest: in_set_takeD in_set_dropD)

lemma map_unat_of_nat:
  "n \<le> 2 ^ 256 \<Longrightarrow> map unat (map of_nat [m ..< n] :: uint256 list) = [m ..< n]"
proof -
  assume n: "n \<le> 2 ^ 256"
  have "map (\<lambda>k. unat (of_nat k :: uint256)) [m ..< n] = [m ..< n]"
    by (rule map_idI) (use n in \<open>simp add: unat_of_nat\<close>)
  then show ?thesis by (simp add: comp_def)
qed

text \<open>Once the counter is at its largest value every further submission reverts.\<close>

lemma run_submits_full:
  "all_submits tr \<Longrightarrow> \<not> unat (observationCount s) + 1 < 2 ^ 256 \<Longrightarrow> run fhe tr s = s"
proof (induction tr)
  case Nil
  then show ?case by simp
next
  case (Cons x tr)
  obtain tx c where x: "x = (tx, c)" by (cases x)
  from Cons.prems(1) x obtain b la lo ts rc where c: "c = Submit b la lo ts rc"
    by (cases c) (simp_all add: all_submits_def)
  from Cons.prems(1) have "all_submits tr" by (simp add: all_submits_def)
  with Cons.IH Cons.prems(2) have "run fhe tr s = s" by simp
  with x c submit_overflow [OF Cons.prems(2)] show ?case by simp
qed

text \<open>Below that value each submission takes the next identity.\<close>

lemma run_submits_count:
  "all_submits tr \<Longrightarrow> unat (observationCount s) + length tr < 2 ^ 256 \<Longrightarrow>
   unat (observationCount (run fhe tr s)) = unat (observationCount s) + length tr \<and>
   submitted_ids (events (run fhe tr s)) =
     submitted_ids (events s) @
       map of_nat [Suc (unat (observationCount s)) ..< Suc (unat (observationCount s) + length tr)]"
proof (induction tr arbitrary: s)
  case Nil
  then show ?case by simp
next
  case (Cons x tr)
  obtain tx c where x: "x = (tx, c)" by (cases x)
  from Cons.prems(1) x obtain b la lo ts rc where c: "c = Submit b la lo ts rc"
    by (cases c) (simp_all add: all_submits_def)
  from Cons.prems(1) have tr: "all_submits tr" by (simp add: all_submits_def)
  from Cons.prems(2) have room: "unat (observationCount s) + 1 < 2 ^ 256" by simp
  from submit_succeeds [OF room] obtain s' where
    s': "submitEncryptedObservation fhe tx s b la lo ts rc = Inr s'" by blast
  note f = submit_Inr [OF s']
  from f have cnt: "unat (observationCount s') = Suc (unat (observationCount s))"
    by (simp add: unat_succ)
  have newid: "observationCount s + 1 = of_nat (Suc (unat (observationCount s)))"
    by simp
  from Cons.prems(2) cnt have "unat (observationCount s') + length tr < 2 ^ 256" by simp
  from Cons.IH [OF tr this] have ih:
    "unat (observationCount (run fhe tr s')) = unat (observationCount s') + length tr"
    "submitted_ids (events (run fhe tr s')) = submitted_ids (events s') @
       map of_nat [Suc (unat (observationCount s')) ..< Suc (unat (observationCount s') + length tr)]"
    by simp_all
  have run: "run fhe (x # tr) s = run fhe tr s'" using x c s' by simp
  have ev: "submitted_ids (events s') =
      submitted_ids (events s) @ [of_nat (Suc (unat (observationCount s)))]"
    using f newid by (simp add: submitted_ids_append)
  have "[Suc (unat (observationCount s)) ..< Suc (unat (observationCount s) + length (x # tr))] =
        Suc (unat (observationCount s)) #
          [Suc (Suc (unat (observationCount s))) ..< Suc (Suc (unat (observationCount s)) + length tr)]"
    by (simp add: upt_conv_Cons del: upt_Suc)
  with ih ev cnt run show ?case by (simp del: upt_Suc)
qed

text \<open>A sequence of submissions is one part that fits under the bound and a rest that reverts.\<close>

lemma run_submits_split:
  assumes "all_submits tr"
  shows "run fhe tr initial_state = run fhe (take (2 ^ 256 - 1) tr) initial_state"
    and "unat (observationCount (run fhe tr initial_state)) = min (length tr) (2 ^ 256 - 1)"
proof -
  define m :: nat where "m = min (length tr) (2 ^ 256 - 1)"
  have lt: "length (take m tr) = m" by (simp add: m_def)
  have m: "m < 2 ^ 256" by (simp add: m_def min_def)
  have tk: "take (2 ^ 256 - 1) tr = take m tr" by (simp add: m_def min_def)
  have c0: "unat (observationCount initial_state) = 0" by (simp add: initial_state_def)
  from take_all_submits [OF assms, of m] have a: "all_submits (take m tr)" "all_submits (drop m tr)"
    by simp_all
  have "unat (observationCount initial_state) + length (take m tr) < 2 ^ 256" using c0 lt m by simp
  from run_submits_count [OF a(1) this, of fhe] c0 lt have h:
    "unat (observationCount (run fhe (take m tr) initial_state)) = m"
    by simp
  have rest: "run fhe (drop m tr) (run fhe (take m tr) initial_state) = run fhe (take m tr) initial_state"
  proof (cases "length tr \<le> 2 ^ 256 - 1")
    case True
    then have "drop m tr = []" by (simp add: m_def)
    then show ?thesis by simp
  next
    case False
    then have "m = 2 ^ 256 - 1" by (simp add: m_def)
    with h have "\<not> unat (observationCount (run fhe (take m tr) initial_state)) + 1 < 2 ^ 256" by simp
    from run_submits_full [OF a(2) this] show ?thesis .
  qed
  have e: "run fhe tr initial_state = run fhe (take m tr) initial_state"
    using run_append [of fhe "take m tr" "drop m tr" initial_state] rest by simp
  with tk show "run fhe tr initial_state = run fhe (take (2 ^ 256 - 1) tr) initial_state" by simp
  from e h show "unat (observationCount (run fhe tr initial_state)) = min (length tr) (2 ^ 256 - 1)"
    by (simp add: m_def)
qed

subsection \<open>The revealed flag under one transaction\<close>

lemma revealed_step_assigned:
  assumes "transact fhe tx c s = Inr s'" "i \<le> observationCount s"
          "isRevealed (decryptedObservations s i)"
  shows "isRevealed (decryptedObservations s' i) \<and> i \<le> observationCount s'"
proof (cases c)
  case (Submit b la lo ts rc)
  with assms(1) have "submitEncryptedObservation fhe tx s b la lo ts rc = Inr s'" by simp
  note f = submit_Inr [OF this]
  from f word_succ_facts [of "observationCount s" i] assms(2,3) show ?thesis by simp
next
  case (RequestReveal j)
  with assms(1) have "requestObservationDecryption fhe tx s j = Inr s'" by simp
  from request_Inr [OF this] assms(2,3) show ?thesis by simp
next
  case (Fulfill r cl p)
  with assms(1) have "decryptObservation fhe s r cl p = Inr s'" by simp
  note f = decrypt_Inr [OF this]
  show ?thesis
  proof (cases "i = requestToObservationId s r")
    case True
    with f assms(2) show ?thesis by simp
  next
    case False
    with f assms(2,3) show ?thesis by simp
  qed
next
  case (RegionalAverage rc)
  with assms(1) obtain h where "calculateRegionalBrightness fhe s rc = Inr (h, s')"
    by (cases "calculateRegionalBrightness fhe s rc") auto
  from regional_Inr [OF this] assms(2,3) show ?thesis by simp
qed

lemma revealed_step_other:
  assumes "transact fhe tx c s = Inr s'" "\<not> is_submit c"
          "isRevealed (decryptedObservations s i)"
  shows "isRevealed (decryptedObservations s' i)"
proof (cases c)
  case (Submit b la lo ts rc)
  with assms(2) show ?thesis by simp
next
  case (RequestReveal j)
  with assms(1) have "requestObservationDecryption fhe tx s j = Inr s'" by simp
  from request_Inr [OF this] assms(3) show ?thesis by simp
next
  case (Fulfill r cl p)
  with assms(1) have "decryptObservation fhe s r cl p = Inr s'" by simp
  note f = decrypt_Inr [OF this]
  show ?thesis
  proof (cases "i = requestToObservationId s r")
    case True
    with f show ?thesis by simp
  next
    case False
    with f assms(3) show ?thesis by simp
  qed
next
  case (RegionalAverage rc)
  with assms(1) obtain h where "calculateRegionalBrightness fhe s rc = Inr (h, s')"
    by (cases "calculateRegionalBrightness fhe s rc") auto
  from regional_Inr [OF this] assms(3) show ?thesis by simp
qed

lemma revealed_run_assigned:
  "i \<le> observationCount s \<Longrightarrow> isRevealed (decryptedObservations s i) \<Longrightarrow>
   isRevealed (decryptedObservations (run fhe tr s) i)"
proof (induction tr arbitrary: s)
  case Nil
  then show ?case by simp
next
  case (Cons a tr)
  obtain tx c where a: "a = (tx, c)" by (cases a)
  show ?case
  proof (cases "transact fhe tx c s")
    case (Inl e)
    with a Cons show ?thesis by simp
  next
    case (Inr s')
    from revealed_step_assigned [OF Inr Cons.prems] Cons.IH [of s'] a Inr show ?thesis by simp
  qed
qed

subsection \<open>Invariants of the reachable states\<close>

lemma reachable_run: "reachable fhe s \<Longrightarrow> reachable fhe (run fhe tr s)"
proof (induction tr arbitrary: s)
  case Nil
  then show ?case by simp
next
  case (Cons x tr)
  obtain tx c where x: "x = (tx, c)" by (cases x)
  show ?case
  proof (cases "transact fhe tx c s")
    case (Inl e)
    with x Cons show ?thesis by simp
  next
    case (Inr s')
    from reachable_step [OF Cons.prems Inr] have "reachable fhe s'" .
    from Cons.IH [OF this] x Inr show ?thesis by simp
  qed
qed

lemma transact_cases:
  assumes "transact fhe tx c s = Inr s'"
  obtains (submit) b la lo ts rc where "submitEncryptedObservation fhe tx s b la lo ts rc = Inr s'"
    | (request) j where "requestObservationDecryption fhe tx s j = Inr s'"
    | (fulfill) r cl p where "decryptObservation fhe s r cl p = Inr s'"
    | (regional) rc h where "calculateRegionalBrightness fhe s rc = Inr (h, s')"
proof (cases c)
  case (Submit b la lo ts rc)
  with assms show ?thesis by (auto intro: submit)
next
  case (RequestReveal j)
  with assms show ?thesis by (auto intro: request)
next
  case (Fulfill r cl p)
  with assms show ?thesis by (auto intro: fulfill)
next
  case (RegionalAverage rc)
  with assms obtain h where "calculateRegionalBrightness fhe s rc = Inr (h, s')"
    by (cases "calculateRegionalBrightness fhe s rc") auto
  then show ?thesis by (rule regional)
qed

lemma unassigned_encrypted_zero:
  "reachable fhe s \<Longrightarrow> i = 0 \<or> observationCount s < i \<Longrightarrow>
   encryptedObservations s i = zero_encrypted"
proof (induction arbitrary: i rule: reachable.induct)
  case reachable_init
  show ?case by (simp add: initial_state_def)
next
  case (reachable_step s tx c s')
  from reachable_step.hyps(2) show ?case
  proof (cases rule: transact_cases)
    case (submit b la lo ts rc)
    note f = submit_Inr [OF submit]
    from f have room: "unat (observationCount s) + 1 < 2 ^ 256" by simp
    have ne0: "observationCount s + 1 \<noteq> 0"
      using unat_succ [OF room] by (metis Suc_eq_plus1 nat.simps(3) unat_0)
    have "i \<noteq> observationCount s + 1 \<and> (i = 0 \<or> observationCount s < i)"
    proof (cases "i = 0")
      case True
      with ne0 show ?thesis by simp
    next
      case False
      with reachable_step.prems f have lt: "observationCount s + 1 < i" by simp
      from word_succ_lt [OF room lt] lt show ?thesis by auto
    qed
    with f reachable_step.IH [of i] show ?thesis by simp
  next
    case (request j)
    from request_Inr [OF request] reachable_step.IH [of i] reachable_step.prems show ?thesis by simp
  next
    case (fulfill r cl p)
    from decrypt_Inr [OF fulfill] reachable_step.IH [of i] reachable_step.prems show ?thesis by simp
  next
    case (regional rc h)
    from regional_Inr [OF regional] reachable_step.IH [of i] reachable_step.prems show ?thesis by simp
  qed
qed

lemma decrypt_Inr_unrevealed:
  "decryptObservation fhe s r c p = Inr s' \<Longrightarrow> \<not> isRevealed (decryptedObservations s' i) \<Longrightarrow>
   decryptedObservations s' i = decryptedObservations s i"
  using decrypt_Inr [of fhe s r c p s'] by (cases "i = requestToObservationId s r") auto

lemma unrevealed_decrypted_zero:
  "reachable fhe s \<Longrightarrow> \<not> isRevealed (decryptedObservations s i) \<Longrightarrow>
   decryptedObservations s i = zero_decrypted"
proof (induction arbitrary: i rule: reachable.induct)
  case reachable_init
  show ?case by (simp add: initial_state_def)
next
  case (reachable_step s tx c s')
  from reachable_step.hyps(2) show ?case
  proof (cases rule: transact_cases)
    case (submit b la lo ts rc)
    note f = submit_Inr [OF submit]
    show ?thesis
    proof (cases "i = observationCount s + 1")
      case True
      with f show ?thesis by simp
    next
      case False
      with f reachable_step.IH [of i] reachable_step.prems show ?thesis by simp
    qed
  next
    case (request j)
    from request_Inr [OF request] reachable_step.IH [of i] reachable_step.prems show ?thesis by simp
  next
    case (fulfill r cl p)
    from decrypt_Inr_unrevealed [OF fulfill reachable_step.prems] reachable_step.IH [of i]
      reachable_step.prems show ?thesis by simp
  next
    case (regional rc h)
    from regional_Inr [OF regional] reachable_step.IH [of i] reachable_step.prems show ?thesis by simp
  qed
qed

lemma region_stats_registered:
  "reachable fhe s \<Longrightarrow>
   encryptedRegionStats s c = (if c \<in> set (regionList s) then asEuint32 fhe 0 else 0)"
proof (induction rule: reachable.induct)
  case reachable_init
  show ?case by (simp add: initial_state_def)
next
  case (reachable_step s tx cl s')
  from reachable_step.hyps(2) show ?case
  proof (cases rule: transact_cases)
    case (submit b la lo ts rc)
    from submit_Inr [OF submit] reachable_step.IH show ?thesis by (auto split: if_splits)
  next
    case (request j)
    from request_Inr [OF request] reachable_step.IH show ?thesis by simp
  next
    case (fulfill r cl p)
    from decrypt_Inr [OF fulfill] reachable_step.IH show ?thesis by simp
  next
    case (regional rc h)
    from regional_Inr [OF regional] reachable_step.IH show ?thesis by simp
  qed
qed

subsection \<open>Region registration along a sequence of submissions\<close>

text \<open>The order of first occurrence, built from the front.\<close>

lemma remdups_snoc: "remdups (ys @ [c]) = removeAll c (remdups ys) @ [c]"
  by (induction ys) auto

lemma first_seen_Cons:
  "rev (remdups (rev (c # cs))) = c # removeAll c (rev (remdups (rev cs)))"
  by (simp add: remdups_snoc removeAll_filter_not_eq rev_filter)

lemma run_submits_regions:
  assumes lib: "\<not> isInitialized fhe 0" "isInitialized fhe (asEuint32 fhe 0)"
  shows "all_submits tr \<Longrightarrow> unat (observationCount s) + length tr < 2 ^ 256 \<Longrightarrow>
     \<forall>c. encryptedRegionStats s c = (if c \<in> set (regionList s) then asEuint32 fhe 0 else 0) \<Longrightarrow>
     regionList (run fhe tr s) =
       regionList s @ filter (\<lambda>c. c \<notin> set (regionList s)) (rev (remdups (rev (region_codes tr))))"
proof (induction tr arbitrary: s)
  case Nil
  then show ?case by simp
next
  case (Cons x tr)
  obtain tx c where x: "x = (tx, c)" by (cases x)
  from Cons.prems(1) x obtain b la lo ts rc where c: "c = Submit b la lo ts rc"
    by (cases c) (simp_all add: all_submits_def)
  from Cons.prems(1) have tr: "all_submits tr" by (simp add: all_submits_def)
  from Cons.prems(2) have room: "unat (observationCount s) + 1 < 2 ^ 256" by simp
  from submit_succeeds [OF room] obtain s' where
    s': "submitEncryptedObservation fhe tx s b la lo ts rc = Inr s'" by blast
  note f = submit_Inr [OF s']
  from f have cnt: "unat (observationCount s') = Suc (unat (observationCount s))"
    by (simp add: unat_succ)
  with Cons.prems(2) have room': "unat (observationCount s') + length tr < 2 ^ 256" by simp
  have init: "isInitialized fhe (encryptedRegionStats s rc) \<longleftrightarrow> rc \<in> set (regionList s)"
    using Cons.prems(3) lib by simp
  have inv': "\<forall>c. encryptedRegionStats s' c = (if c \<in> set (regionList s') then asEuint32 fhe 0 else 0)"
    using f Cons.prems(3) init by auto
  note ih = Cons.IH [OF tr room' inv']
  have run: "run fhe (x # tr) s = run fhe tr s'" using x c s' by simp
  have codes: "rev (remdups (rev (region_codes (x # tr)))) =
      rc # removeAll rc (rev (remdups (rev (region_codes tr))))"
    using x c first_seen_Cons [of rc "region_codes tr"] by simp
  show ?case
  proof (cases "rc \<in> set (regionList s)")
    case True
    with f init have "regionList s' = regionList s" by simp
    moreover have "filter (\<lambda>c. c \<notin> set (regionList s)) (removeAll rc (rev (remdups (rev (region_codes tr))))) =
        filter (\<lambda>c. c \<notin> set (regionList s)) (rev (remdups (rev (region_codes tr))))"
      using True by (auto simp: removeAll_filter_not_eq intro: filter_cong)
    ultimately show ?thesis using ih run codes True by simp
  next
    case False
    with f init have "regionList s' = regionList s @ [rc]" by simp
    moreover have "filter (\<lambda>c. c \<notin> set (regionList s)) (removeAll rc (rev (remdups (rev (region_codes tr))))) =
        filter (\<lambda>c. c \<notin> set (regionList s @ [rc])) (rev (remdups (rev (region_codes tr))))"
      by (auto simp: removeAll_filter_not_eq intro: filter_cong)
    ultimately show ?thesis using ih run codes False by simp
  qed
qed


subsection \<open>Which transaction writes what\<close>

lemma correlations_kept:
  assumes "transact fhe tx c s = Inr s'" "\<not> is_request c"
  shows "requestToObservationId s' = requestToObservationId s"
proof (cases c)
  case (Submit b la lo ts rc)
  with assms(1) have "submitEncryptedObservation fhe tx s b la lo ts rc = Inr s'" by simp
  from submit_Inr [OF this] show ?thesis by simp
next
  case (RequestReveal j)
  with assms(2) show ?thesis by simp
next
  case (Fulfill r cl p)
  with assms(1) have "decryptObservation fhe s r cl p = Inr s'" by simp
  from decrypt_Inr [OF this] show ?thesis by simp
next
  case (RegionalAverage rc)
  with assms(1) obtain h where "calculateRegionalBrightness fhe s rc = Inr (h, s')"
    by (cases "calculateRegionalBrightness fhe s rc") auto
  from regional_Inr [OF this] show ?thesis by simp
qed

lemma submit_rewrites_one_record:
  assumes "transact fhe tx c s = Inr s'" "is_submit c"
  shows "observationCount s' = observationCount s + 1 \<and>
         decryptedObservations s' = (decryptedObservations s)(observationCount s' := zero_decrypted)"
proof (cases c)
  case (Submit b la lo ts rc)
  with assms(1) have "submitEncryptedObservation fhe tx s b la lo ts rc = Inr s'" by simp
  from submit_Inr [OF this] show ?thesis by simp
qed (use assms(2) in simp_all)

lemma zero_never_revealed:
  "reachable fhe s \<Longrightarrow> decryptedObservations s 0 = zero_decrypted"
proof (induction rule: reachable.induct)
  case reachable_init
  show ?case by (simp add: initial_state_def)
next
  case (reachable_step s tx c s')
  from reachable_step.hyps(2) show ?case
  proof (cases rule: transact_cases)
    case (submit b la lo ts rc)
    note f = submit_Inr [OF submit]
    from f have room: "unat (observationCount s) + 1 < 2 ^ 256" by simp
    have "unat (observationCount s + 1) \<noteq> unat (0::uint256)"
      using unat_succ [OF room] by simp
    then have "observationCount s + 1 \<noteq> 0" by auto
    with f reachable_step.IH show ?thesis by simp
  next
    case (request j)
    from request_Inr [OF request] reachable_step.IH show ?thesis by simp
  next
    case (fulfill r cl p)
    from decrypt_Inr [OF fulfill] reachable_step.IH show ?thesis by auto
  next
    case (regional rc h)
    from regional_Inr [OF regional] reachable_step.IH show ?thesis by simp
  qed
qed

text \<open>
  The sum of a registered region is the encryption of zero, so the regional average is
  \<open>FHE.div\<close> of that and the encrypted count.
\<close>

lemma regional_average_of_registered:
  assumes "isInitialized fhe (asEuint32 fhe 0)" "reachable fhe s" "c \<in> set (regionList s)"
  shows "map_sum id fst (calculateRegionalBrightness fhe s c) =
           Inr (FHE_div fhe (asEuint32 fhe 0) (asEuint32 fhe (ucast (observationCount s))))"
  using region_stats_registered [OF assms(2), of c] assms(1,3)
  by (simp add: calculateRegionalBrightness_def Let_def)

subsection \<open>The claims\<close>

text \<open>
  C1, as the code has it. A successful \<open>decryptObservation\<close> leaves the correlation of its
  request identity in place, and no transaction other than a reveal request changes any
  correlation. A second call with the same request identity, made right after the first,
  fails on the revealed flag with "Already decrypted" (\<open>AlreadyRevealed\<close>), whatever
  cleartexts and proof it brings. When the observation revealed was one that a submission
  had assigned (its identity at most the count), the same holds after any sequence of
  transactions, as long as the correlation of the request identity still reads the same.
  And the call fails with "Invalid request" (\<open>UnknownRequest\<close>) exactly when the
  correlation of the request identity reads zero.
\<close>

theorem fulfill_replay_fails_AlreadyRevealed:
  "(decryptObservation fhe s r c p = Inr s2 \<longrightarrow>
      requestToObservationId s2 r = requestToObservationId s r \<and>
      decryptObservation fheR s2 r cR pR = Inl AlreadyRevealed) \<and>
   (decryptObservation fhe s r c p = Inr s2 \<and>
    requestToObservationId s r \<le> observationCount s \<and>
    requestToObservationId (run fheT tr s2) r = requestToObservationId s r \<longrightarrow>
      decryptObservation fheR (run fheT tr s2) r cR pR = Inl AlreadyRevealed) \<and>
   (transact fheK tx call t = Inr t2 \<and> \<not> is_request call \<longrightarrow>
      requestToObservationId t2 = requestToObservationId t) \<and>
   ((decryptObservation fheU u q cU pU = Inl UnknownRequest) = (requestToObservationId u q = 0))"
proof (intro conjI impI)
  assume ok: "decryptObservation fhe s r c p = Inr s2"
  note f = decrypt_Inr [OF ok]
  from f show "requestToObservationId s2 r = requestToObservationId s r" by simp
  from f show "decryptObservation fheR s2 r cR pR = Inl AlreadyRevealed"
    by (simp add: decryptObservation_def decryptObservation_body_def Let_def)
next
  assume a: "decryptObservation fhe s r c p = Inr s2 \<and>
    requestToObservationId s r \<le> observationCount s \<and>
    requestToObservationId (run fheT tr s2) r = requestToObservationId s r"
  then have ok: "decryptObservation fhe s r c p = Inr s2" by simp
  note f = decrypt_Inr [OF ok]
  from f a have le: "requestToObservationId s r \<le> observationCount s2" by simp
  from f have rv: "isRevealed (decryptedObservations s2 (requestToObservationId s r))" by simp
  from revealed_run_assigned [OF le rv, of fheT tr] f a
  show "decryptObservation fheR (run fheT tr s2) r cR pR = Inl AlreadyRevealed"
    by (simp add: decryptObservation_def decryptObservation_body_def Let_def)
next
  assume "transact fheK tx call t = Inr t2 \<and> \<not> is_request call"
  then show "requestToObservationId t2 = requestToObservationId t"
    using correlations_kept [of fheK tx call t t2] by simp
next
  show "(decryptObservation fheU u q cU pU = Inl UnknownRequest) = (requestToObservationId u q = 0)"
    by (auto simp: decryptObservation_def decryptObservation_body_def Let_def
             split: if_splits option.splits)
qed

text \<open>
  The theorem at work: one observation, one request answered with identity 7, fulfilled
  with well-formed cleartexts; the replay of 7 is refused as already revealed, at once and
  again after a second submission and a further request; the unseen identity 9 is unknown.
\<close>

theorem fulfill_replay_fails_AlreadyRevealed_witness:
  "decryptObservation stub_fhe
     (run stub_fhe [(stub_tx 10 0, Submit 1 2 3 4 ''EU-1''), (stub_tx 10 7, RequestReveal 1)] initial_state) 7 sample_cleartexts [] =
   Inr (run stub_fhe [(stub_tx 10 0, Submit 1 2 3 4 ''EU-1''), (stub_tx 10 7, RequestReveal 1),
        (stub_tx 11 0, Fulfill 7 sample_cleartexts [])] initial_state) \<and>
   decryptObservation stub_fhe
     (run stub_fhe [(stub_tx 10 0, Submit 1 2 3 4 ''EU-1''), (stub_tx 10 7, RequestReveal 1),
        (stub_tx 11 0, Fulfill 7 sample_cleartexts [])] initial_state) 7 sample_cleartexts [] = Inl AlreadyRevealed \<and>
   requestToObservationId (run stub_fhe [(stub_tx 10 0, Submit 1 2 3 4 ''EU-1''), (stub_tx 10 7, RequestReveal 1)] initial_state) 7 \<le>
     observationCount (run stub_fhe [(stub_tx 10 0, Submit 1 2 3 4 ''EU-1''), (stub_tx 10 7, RequestReveal 1)] initial_state) \<and>
   requestToObservationId
     (run stub_fhe [(stub_tx 12 0, Submit 5 6 7 8 ''AS-2''), (stub_tx 10 9, RequestReveal 2)]
       (run stub_fhe [(stub_tx 10 0, Submit 1 2 3 4 ''EU-1''), (stub_tx 10 7, RequestReveal 1),
        (stub_tx 11 0, Fulfill 7 sample_cleartexts [])] initial_state)) 7 =
     requestToObservationId (run stub_fhe [(stub_tx 10 0, Submit 1 2 3 4 ''EU-1''), (stub_tx 10 7, RequestReveal 1)] initial_state) 7 \<and>
   decryptObservation stub_fhe
     (run stub_fhe [(stub_tx 12 0, Submit 5 6 7 8 ''AS-2''), (stub_tx 10 9, RequestReveal 2)]
       (run stub_fhe [(stub_tx 10 0, Submit 1 2 3 4 ''EU-1''), (stub_tx 10 7, RequestReveal 1),
        (stub_tx 11 0, Fulfill 7 sample_cleartexts [])] initial_state)) 7 sample_cleartexts [] = Inl AlreadyRevealed \<and>
   transact stub_fhe (stub_tx 11 0) (Fulfill 7 sample_cleartexts [])
     (run stub_fhe [(stub_tx 10 0, Submit 1 2 3 4 ''EU-1''), (stub_tx 10 7, RequestReveal 1)] initial_state) =
   Inr (run stub_fhe [(stub_tx 10 0, Submit 1 2 3 4 ''EU-1''), (stub_tx 10 7, RequestReveal 1),
        (stub_tx 11 0, Fulfill 7 sample_cleartexts [])] initial_state) \<and>
   \<not> is_request (Fulfill 7 sample_cleartexts []) \<and>
   requestToObservationId (run stub_fhe [(stub_tx 10 0, Submit 1 2 3 4 ''EU-1''), (stub_tx 10 7, RequestReveal 1),
        (stub_tx 11 0, Fulfill 7 sample_cleartexts [])] initial_state) =
     requestToObservationId (run stub_fhe [(stub_tx 10 0, Submit 1 2 3 4 ''EU-1''), (stub_tx 10 7, RequestReveal 1)] initial_state) \<and>
   requestToObservationId (run stub_fhe [(stub_tx 10 0, Submit 1 2 3 4 ''EU-1''), (stub_tx 10 7, RequestReveal 1)] initial_state) 9 = 0 \<and>
   decryptObservation stub_fhe (run stub_fhe [(stub_tx 10 0, Submit 1 2 3 4 ''EU-1''), (stub_tx 10 7, RequestReveal 1)] initial_state) 9 [] [] = Inl UnknownRequest"
  using fulfill_replay_fails_AlreadyRevealed
    [where fhe = stub_fhe and s = "(run stub_fhe [(stub_tx 10 0, Submit 1 2 3 4 ''EU-1''), (stub_tx 10 7, RequestReveal 1)] initial_state)"
       and r = 7 and c = sample_cleartexts and p = "[]"
       and ?s2.0 = "(run stub_fhe [(stub_tx 10 0, Submit 1 2 3 4 ''EU-1''), (stub_tx 10 7, RequestReveal 1),
        (stub_tx 11 0, Fulfill 7 sample_cleartexts [])] initial_state)"
       and fheR = stub_fhe and cR = sample_cleartexts and pR = "[]"
       and fheT = stub_fhe and tr = "[(stub_tx 12 0, Submit 5 6 7 8 ''AS-2''), (stub_tx 10 9, RequestReveal 2)]"
       and fheK = stub_fhe and tx = "stub_tx 11 0" and call = "Fulfill 7 sample_cleartexts []"
       and t = "(run stub_fhe [(stub_tx 10 0, Submit 1 2 3 4 ''EU-1''), (stub_tx 10 7, RequestReveal 1)] initial_state)"
       and ?t2.0 = "(run stub_fhe [(stub_tx 10 0, Submit 1 2 3 4 ''EU-1''), (stub_tx 10 7, RequestReveal 1),
        (stub_tx 11 0, Fulfill 7 sample_cleartexts [])] initial_state)"
       and fheU = stub_fhe and u = "(run stub_fhe [(stub_tx 10 0, Submit 1 2 3 4 ''EU-1''), (stub_tx 10 7, RequestReveal 1)] initial_state)"
       and q = 9 and cU = "[]" and pU = "[]"]
  by (simp add: contract_defs stub_defs decode_sample Let_def)

text \<open>
  C1 as the specification words it fails: the first fulfilment succeeds, and the replay of
  the same request identity is not answered with \<open>UnknownRequest\<close>.
\<close>

theorem fulfill_replay_not_UnknownRequest:
  "\<not> isl (decryptObservation stub_fhe
     (run stub_fhe [(stub_tx 10 0, Submit 1 2 3 4 ''EU-1''), (stub_tx 10 7, RequestReveal 1)] initial_state) 7 sample_cleartexts []) \<and>
   decryptObservation stub_fhe
     (run stub_fhe [(stub_tx 10 0, Submit 1 2 3 4 ''EU-1''), (stub_tx 10 7, RequestReveal 1),
        (stub_tx 11 0, Fulfill 7 sample_cleartexts [])] initial_state) 7 sample_cleartexts [] \<noteq> Inl UnknownRequest"
  by (simp add: contract_defs stub_defs decode_sample Let_def)

text \<open>
  C2, as the code has it. \<open>requestObservationDecryption\<close> has no guard on pending
  requests and never fails with \<open>RequestAlreadyPending\<close>. On an observation that
  already has a pending request (a correlation under \<open>r0\<close>, not yet revealed) a second
  call succeeds as soon as the library issues a request identity \<open>r\<close>: it writes the
  correlation of \<open>r\<close> and touches no other, so that the old one stays when \<open>r\<close>
  differs from \<open>r0\<close>, and one observation can have several pending correlations.
\<close>

theorem requestReveal_while_pending_succeeds:
  "requestObservationDecryption fhe tx s i \<noteq> Inl RequestAlreadyPending \<and>
   (requestToObservationId s r0 = i \<and> \<not> isRevealed (decryptedObservations s i) \<and>
    requestDecryption tx
      [toBytes32 fhe (encryptedBrightness (encryptedObservations s i)),
       toBytes32 fhe (encryptedLatitude (encryptedObservations s i)),
       toBytes32 fhe (encryptedLongitude (encryptedObservations s i)),
       toBytes32 fhe (encryptedTimestamp (encryptedObservations s i))] = Some r \<longrightarrow>
    requestObservationDecryption fhe tx s i =
      Inr (s\<lparr>requestToObservationId := (requestToObservationId s)(r := i),
             events := events s @ [DecryptionRequested i]\<rparr>))"
  by (auto simp: requestObservationDecryption_def onlyObserver_def Let_def split: option.splits)

text \<open>
  The theorem at work: observation 1 has a pending request under identity 7; a second
  request, answered with identity 8, succeeds, and both correlations are then stored.
\<close>

theorem requestReveal_while_pending_succeeds_witness:
  "requestToObservationId
     (run stub_fhe [(stub_tx 10 0, Submit 1 2 3 4 ''EU-1''), (stub_tx 10 7, RequestReveal 1)]
        initial_state) 7 = 1 \<and>
   \<not> isRevealed (decryptedObservations
     (run stub_fhe [(stub_tx 10 0, Submit 1 2 3 4 ''EU-1''), (stub_tx 10 7, RequestReveal 1)]
        initial_state) 1) \<and>
   requestDecryption (stub_tx 10 8) [1, 2, 3, 4] = Some 8 \<and>
   requestObservationDecryption stub_fhe (stub_tx 10 8)
     (run stub_fhe [(stub_tx 10 0, Submit 1 2 3 4 ''EU-1''), (stub_tx 10 7, RequestReveal 1)]
        initial_state) 1 =
   Inr (run stub_fhe [(stub_tx 10 0, Submit 1 2 3 4 ''EU-1''), (stub_tx 10 7, RequestReveal 1),
                      (stub_tx 10 8, RequestReveal 1)] initial_state) \<and>
   requestToObservationId
     (run stub_fhe [(stub_tx 10 0, Submit 1 2 3 4 ''EU-1''), (stub_tx 10 7, RequestReveal 1),
                    (stub_tx 10 8, RequestReveal 1)] initial_state) 7 = 1 \<and>
   requestToObservationId
     (run stub_fhe [(stub_tx 10 0, Submit 1 2 3 4 ''EU-1''), (stub_tx 10 7, RequestReveal 1),
                    (stub_tx 10 8, RequestReveal 1)] initial_state) 8 = 1"
  using requestReveal_while_pending_succeeds
    [of stub_fhe "stub_tx 10 8"
        "run stub_fhe [(stub_tx 10 0, Submit 1 2 3 4 ''EU-1''), (stub_tx 10 7, RequestReveal 1)]
           initial_state"
        1 7 8]
  by (simp add: contract_defs stub_defs Let_def)

text \<open>
  C2 as the specification words it fails: the second request on observation 1 is not
  refused, and afterwards two pending correlations, 7 and 8, point at the observation,
  which is still not revealed.
\<close>

theorem requestReveal_second_request_not_refused:
  "\<not> isl (requestObservationDecryption stub_fhe (stub_tx 10 8)
     (run stub_fhe [(stub_tx 10 0, Submit 1 2 3 4 ''EU-1''), (stub_tx 10 7, RequestReveal 1)]
        initial_state) 1) \<and>
   requestToObservationId
     (run stub_fhe [(stub_tx 10 0, Submit 1 2 3 4 ''EU-1''), (stub_tx 10 7, RequestReveal 1),
                    (stub_tx 10 8, RequestReveal 1)] initial_state) 7 = 1 \<and>
   requestToObservationId
     (run stub_fhe [(stub_tx 10 0, Submit 1 2 3 4 ''EU-1''), (stub_tx 10 7, RequestReveal 1),
                    (stub_tx 10 8, RequestReveal 1)] initial_state) 8 = 1 \<and>
   \<not> isRevealed (decryptedObservations
     (run stub_fhe [(stub_tx 10 0, Submit 1 2 3 4 ''EU-1''), (stub_tx 10 7, RequestReveal 1),
                    (stub_tx 10 8, RequestReveal 1)] initial_state) 1)"
  by (simp add: contract_defs stub_defs Let_def)

text \<open>
  C3. In \<open>decryptObservation\<close> the lookup of the request, the revealed guard and the
  signature check all come before the first write: when the body stops with
  \<open>UnknownRequest\<close>, \<open>AlreadyRevealed\<close> or \<open>ProofVerificationFailed\<close>, the storage
  at that point is the storage the call started with - every encrypted and decrypted
  record and every correlation. Without a valid proof the body stops before any write,
  whatever the error. And a call that fails for any reason leaves the ledger as it was.
\<close>

theorem fulfill_checks_before_writes:
  "(decryptObservation_body fhe s requestId cleartexts prf = Inl (e, s_fail) \<and>
    e \<in> {UnknownRequest, AlreadyRevealed, ProofVerificationFailed} \<longrightarrow> s_fail = s) \<and>
   (\<not> checkSignatures fhe requestId cleartexts prf \<longrightarrow>
      (\<exists>e. decryptObservation_body fhe s requestId cleartexts prf = Inl (e, s))) \<and>
   (decryptObservation fhe s requestId cleartexts prf = Inl e' \<longrightarrow>
      run fhe [(tx, Fulfill requestId cleartexts prf)] s = s)"
  by (auto simp: decryptObservation_body_def Let_def split: if_splits option.splits)

text \<open>
  The theorem at work: a pending request 7 on observation 1, answered under a library
  that refuses the proof.
\<close>

theorem fulfill_checks_before_writes_witness:
  "\<not> checkSignatures reject_fhe 7 [] [] \<and>
   decryptObservation_body reject_fhe
     (run stub_fhe [(stub_tx 10 0, Submit 1 2 3 4 ''EU-1''), (stub_tx 10 7, RequestReveal 1)]
        initial_state) 7 [] [] =
   Inl (ProofVerificationFailed,
     run stub_fhe [(stub_tx 10 0, Submit 1 2 3 4 ''EU-1''), (stub_tx 10 7, RequestReveal 1)]
        initial_state) \<and>
   ProofVerificationFailed \<in> {UnknownRequest, AlreadyRevealed, ProofVerificationFailed} \<and>
   decryptObservation reject_fhe
     (run stub_fhe [(stub_tx 10 0, Submit 1 2 3 4 ''EU-1''), (stub_tx 10 7, RequestReveal 1)]
        initial_state) 7 [] [] = Inl ProofVerificationFailed \<and>
   run reject_fhe [(stub_tx 11 0, Fulfill 7 [] [])]
     (run stub_fhe [(stub_tx 10 0, Submit 1 2 3 4 ''EU-1''), (stub_tx 10 7, RequestReveal 1)]
        initial_state) =
   run stub_fhe [(stub_tx 10 0, Submit 1 2 3 4 ''EU-1''), (stub_tx 10 7, RequestReveal 1)]
     initial_state"
  using fulfill_checks_before_writes
    [of reject_fhe
        "run stub_fhe [(stub_tx 10 0, Submit 1 2 3 4 ''EU-1''), (stub_tx 10 7, RequestReveal 1)]
           initial_state"
        7 "[]" "[]" ProofVerificationFailed
        "run stub_fhe [(stub_tx 10 0, Submit 1 2 3 4 ''EU-1''), (stub_tx 10 7, RequestReveal 1)]
           initial_state"
        ProofVerificationFailed "stub_tx 11 0"]
  by (simp add: contract_defs stub_defs Let_def)

text \<open>
  C4 fails on the code. The observation is submitted by the sender 10; the sender 11,
  who is not its contributor, requests the reveal, and the call succeeds: it is not
  answered with \<open>Unauthorized\<close>, and the correlation is stored.
\<close>

theorem requestReveal_by_stranger_succeeds:
  "msg_sender (stub_tx 11 7) \<noteq> msg_sender (stub_tx 10 0) \<and>
   \<not> isl (requestObservationDecryption stub_fhe (stub_tx 11 7)
     (run stub_fhe [(stub_tx 10 0, Submit 1 2 3 4 ''EU-1'')] initial_state) 1) \<and>
   requestObservationDecryption stub_fhe (stub_tx 11 7)
     (run stub_fhe [(stub_tx 10 0, Submit 1 2 3 4 ''EU-1'')] initial_state) 1 \<noteq> Inl Unauthorized \<and>
   requestToObservationId
     (run stub_fhe [(stub_tx 10 0, Submit 1 2 3 4 ''EU-1''), (stub_tx 11 7, RequestReveal 1)]
        initial_state) 7 = 1"
  by (simp add: contract_defs stub_defs Let_def)

text \<open>
  C5, as the code has it. For an identity that is at most the observation count - so for
  every identity a submission has assigned - a revealed flag that is true stays true
  through any sequence of transactions. No transaction other than a submission clears the
  flag of any identity at all. And a submission raises the count by one and rewrites one
  decrypted record, that of the identity it assigns, to the all-zero record; every other
  decrypted record is as it was.
\<close>

theorem revealed_monotone_for_assigned:
  "(i \<le> observationCount s \<and> isRevealed (decryptedObservations s i) \<longrightarrow>
      isRevealed (decryptedObservations (run fhe tr s) i)) \<and>
   (transact fhe tx c t = Inr t2 \<and> \<not> is_submit c \<and> isRevealed (decryptedObservations t j) \<longrightarrow>
      isRevealed (decryptedObservations t2 j)) \<and>
   (transact fheS txS cS u = Inr u2 \<and> is_submit cS \<longrightarrow>
      observationCount u2 = observationCount u + 1 \<and>
      decryptedObservations u2 = (decryptedObservations u)(observationCount u2 := zero_decrypted))"
  using revealed_run_assigned [of i s fhe tr] revealed_step_other [of fhe tx c t t2 j]
    submit_rewrites_one_record [of fheS txS cS u u2]
  by blast

text \<open>
  The theorem at work: observation 1 is revealed, then another observation is submitted
  and a further reveal is asked; the flag of the first is still set. The fulfilment is the
  transaction of the second part, the second submission that of the third.
\<close>

theorem revealed_monotone_for_assigned_witness:
  "1 \<le> observationCount (run stub_fhe [(stub_tx 10 0, Submit 1 2 3 4 ''EU-1''), (stub_tx 10 7, RequestReveal 1),
        (stub_tx 11 0, Fulfill 7 sample_cleartexts [])] initial_state) \<and>
   isRevealed (decryptedObservations (run stub_fhe [(stub_tx 10 0, Submit 1 2 3 4 ''EU-1''), (stub_tx 10 7, RequestReveal 1),
        (stub_tx 11 0, Fulfill 7 sample_cleartexts [])] initial_state) 1) \<and>
   isRevealed (decryptedObservations
     (run stub_fhe [(stub_tx 12 0, Submit 5 6 7 8 ''AS-2''), (stub_tx 10 9, RequestReveal 2)]
       (run stub_fhe [(stub_tx 10 0, Submit 1 2 3 4 ''EU-1''), (stub_tx 10 7, RequestReveal 1),
        (stub_tx 11 0, Fulfill 7 sample_cleartexts [])] initial_state)) 1) \<and>
   transact stub_fhe (stub_tx 11 0) (Fulfill 7 sample_cleartexts [])
     (run stub_fhe [(stub_tx 10 0, Submit 1 2 3 4 ''EU-1''), (stub_tx 10 7, RequestReveal 1)] initial_state) =
   Inr (run stub_fhe [(stub_tx 10 0, Submit 1 2 3 4 ''EU-1''), (stub_tx 10 7, RequestReveal 1),
        (stub_tx 11 0, Fulfill 7 sample_cleartexts [])] initial_state) \<and>
   \<not> is_submit (Fulfill 7 sample_cleartexts []) \<and>
   transact stub_fhe (stub_tx 12 0) (Submit 5 6 7 8 ''AS-2'')
     (run stub_fhe [(stub_tx 10 0, Submit 1 2 3 4 ''EU-1''), (stub_tx 10 7, RequestReveal 1),
        (stub_tx 11 0, Fulfill 7 sample_cleartexts [])] initial_state) =
   Inr (run stub_fhe [(stub_tx 12 0, Submit 5 6 7 8 ''AS-2'')]
     (run stub_fhe [(stub_tx 10 0, Submit 1 2 3 4 ''EU-1''), (stub_tx 10 7, RequestReveal 1),
        (stub_tx 11 0, Fulfill 7 sample_cleartexts [])] initial_state)) \<and>
   is_submit (Submit 5 6 7 8 ''AS-2'') \<and>
   observationCount (run stub_fhe [(stub_tx 12 0, Submit 5 6 7 8 ''AS-2'')]
     (run stub_fhe [(stub_tx 10 0, Submit 1 2 3 4 ''EU-1''), (stub_tx 10 7, RequestReveal 1),
        (stub_tx 11 0, Fulfill 7 sample_cleartexts [])] initial_state)) = 2 \<and>
   decryptedObservations (run stub_fhe [(stub_tx 12 0, Submit 5 6 7 8 ''AS-2'')]
     (run stub_fhe [(stub_tx 10 0, Submit 1 2 3 4 ''EU-1''), (stub_tx 10 7, RequestReveal 1),
        (stub_tx 11 0, Fulfill 7 sample_cleartexts [])] initial_state)) =
   (decryptedObservations (run stub_fhe [(stub_tx 10 0, Submit 1 2 3 4 ''EU-1''), (stub_tx 10 7, RequestReveal 1),
        (stub_tx 11 0, Fulfill 7 sample_cleartexts [])] initial_state))(2 := zero_decrypted)"
  using revealed_monotone_for_assigned
    [where i = 1 and s = "(run stub_fhe [(stub_tx 10 0, Submit 1 2 3 4 ''EU-1''), (stub_tx 10 7, RequestReveal 1),
        (stub_tx 11 0, Fulfill 7 sample_cleartexts [])] initial_state)"
       and fhe = stub_fhe and tr = "[(stub_tx 12 0, Submit 5 6 7 8 ''AS-2''), (stub_tx 10 9, RequestReveal 2)]"
       and tx = "stub_tx 11 0" and c = "Fulfill 7 sample_cleartexts []"
       and t = "(run stub_fhe [(stub_tx 10 0, Submit 1 2 3 4 ''EU-1''), (stub_tx 10 7, RequestReveal 1)] initial_state)"
       and ?t2.0 = "(run stub_fhe [(stub_tx 10 0, Submit 1 2 3 4 ''EU-1''), (stub_tx 10 7, RequestReveal 1),
        (stub_tx 11 0, Fulfill 7 sample_cleartexts [])] initial_state)"
       and j = 1
       and fheS = stub_fhe and txS = "stub_tx 12 0" and cS = "Submit 5 6 7 8 ''AS-2''"
       and u = "(run stub_fhe [(stub_tx 10 0, Submit 1 2 3 4 ''EU-1''), (stub_tx 10 7, RequestReveal 1),
        (stub_tx 11 0, Fulfill 7 sample_cleartexts [])] initial_state)"
       and ?u2.0 = "run stub_fhe [(stub_tx 12 0, Submit 5 6 7 8 ''AS-2'')]
     (run stub_fhe [(stub_tx 10 0, Submit 1 2 3 4 ''EU-1''), (stub_tx 10 7, RequestReveal 1),
        (stub_tx 11 0, Fulfill 7 sample_cleartexts [])] initial_state)"]
  by (simp add: contract_defs stub_defs decode_sample Let_def)

text \<open>
  C5 as the specification words it fails, at an identity not yet assigned. On the empty
  ledger a reveal of identity 1 is requested and fulfilled with well-formed cleartexts,
  which sets the flag of 1; the first submission then takes identity 1 and writes its
  decrypted record afresh, with the flag false.
\<close>

theorem revealed_flag_reset_by_submit:
  "isRevealed (decryptedObservations
     (run stub_fhe [(stub_tx 10 7, RequestReveal 1),
        (stub_tx 11 0, Fulfill 7 sample_cleartexts [])] initial_state) 1) \<and>
   \<not> isRevealed (decryptedObservations
     (run stub_fhe [(stub_tx 10 7, RequestReveal 1),
        (stub_tx 11 0, Fulfill 7 sample_cleartexts []),
        (stub_tx 10 0, Submit 1 2 3 4 ''EU-1'')] initial_state) 1)"
  by (simp add: contract_defs stub_defs decode_sample Let_def)

text \<open>
  C6. Whatever the sequence of submissions from the initial state, the identities
  assigned, read as numbers in submission order, are 1, 2, 3, ... without gap or
  repetition, and the counter is their number. The counter is a \<open>uint256\<close>: a
  submission that would overflow it reverts and assigns nothing, hence the bound.
\<close>

theorem submit_ids_sequential:
  assumes "all_submits tr"
  shows "unat (observationCount (run fhe tr initial_state)) = min (length tr) (2 ^ 256 - 1) \<and>
         map unat (submitted_ids (events (run fhe tr initial_state))) =
           [1 ..< Suc (min (length tr) (2 ^ 256 - 1))]"
proof -
  define m :: nat where "m = min (length tr) (2 ^ 256 - 1)"
  have lt: "length (take m tr) = m" by (simp add: m_def)
  have m: "m < 2 ^ 256" by (simp add: m_def min_def)
  have tk: "take (2 ^ 256 - 1) tr = take m tr" by (simp add: m_def min_def)
  have c0: "unat (observationCount initial_state) = 0" "events initial_state = []"
    by (simp_all add: initial_state_def)
  from take_all_submits [OF assms, of m] have a: "all_submits (take m tr)" by simp
  have "unat (observationCount initial_state) + length (take m tr) < 2 ^ 256" using c0 lt m by simp
  from run_submits_count [OF a this, of fhe] c0 lt have h:
    "submitted_ids (events (run fhe (take m tr) initial_state)) = map of_nat [Suc 0 ..< Suc m]"
    by (simp del: upt_Suc)
  have "map unat (map of_nat [Suc 0 ..< Suc m] :: uint256 list) = [Suc 0 ..< Suc m]"
    by (rule map_unat_of_nat) (use m in simp)
  with h run_submits_split [OF assms, of fhe] tk show ?thesis
    unfolding m_def [symmetric] by (simp del: upt_Suc)
qed

text \<open>The theorem at work: three submissions get the identities 1, 2 and 3.\<close>

theorem submit_ids_sequential_witness:
  "all_submits [(stub_tx 10 0, Submit 1 2 3 4 ''EU-1''), (stub_tx 11 0, Submit 5 6 7 8 ''EU-1''),
                (stub_tx 10 0, Submit 9 9 9 9 ''AS-2'')] \<and>
   unat (observationCount
     (run stub_fhe [(stub_tx 10 0, Submit 1 2 3 4 ''EU-1''), (stub_tx 11 0, Submit 5 6 7 8 ''EU-1''),
                    (stub_tx 10 0, Submit 9 9 9 9 ''AS-2'')] initial_state)) = 3 \<and>
   map unat (submitted_ids (events
     (run stub_fhe [(stub_tx 10 0, Submit 1 2 3 4 ''EU-1''), (stub_tx 11 0, Submit 5 6 7 8 ''EU-1''),
                    (stub_tx 10 0, Submit 9 9 9 9 ''AS-2'')] initial_state))) = [1, 2, 3]"
proof -
  have a: "all_submits [(stub_tx 10 0, Submit 1 2 3 4 ''EU-1''),
      (stub_tx 11 0, Submit 5 6 7 8 ''EU-1''), (stub_tx 10 0, Submit 9 9 9 9 ''AS-2'')]"
    by (simp add: all_submits_def)
  have "[1 ..< Suc (min 3 (2 ^ 256 - 1))] = [1, 2, 3::nat]"
    by (simp add: upt_conv_Cons)
  with a submit_ids_sequential [where fhe = stub_fhe, OF a] show ?thesis by simp
qed

text \<open>
  C7. Take a library whose zero handle is uninitialized and whose encryption of zero is
  initialized. After any sequence of submissions from the initial state the registration
  list holds each region code once, in the order of first submission; the sum of every
  code submitted is the encrypted zero, and the sum of every other code is the zero handle,
  never written. (The codes are those of the submissions that went through: one that
  would overflow the counter reverts and registers nothing.) The count is the number of
  submissions.
\<close>

theorem regions_registered_once:
  assumes "\<not> isInitialized fhe 0" "isInitialized fhe (asEuint32 fhe 0)" "all_submits tr"
  shows "regionList (run fhe tr initial_state) =
           rev (remdups (rev (region_codes (take (2 ^ 256 - 1) tr)))) \<and>
         distinct (regionList (run fhe tr initial_state)) \<and>
         (\<forall>c. encryptedRegionStats (run fhe tr initial_state) c =
              (if c \<in> set (region_codes (take (2 ^ 256 - 1) tr)) then asEuint32 fhe 0 else 0)) \<and>
         unat (observationCount (run fhe tr initial_state)) = min (length tr) (2 ^ 256 - 1)"
proof -
  let ?tk = "take (2 ^ 256 - 1) tr"
  have e: "run fhe tr initial_state = run fhe ?tk initial_state"
    by (rule run_submits_split(1) [OF assms(3)])
  from take_all_submits [OF assms(3), of "2 ^ 256 - 1"] have a: "all_submits ?tk" by simp
  have room: "unat (observationCount initial_state) + length ?tk < 2 ^ 256"
    by (simp add: initial_state_def min_def)
  have inv: "\<forall>c. encryptedRegionStats initial_state c =
       (if c \<in> set (regionList initial_state) then asEuint32 fhe 0 else 0)"
    by (simp add: initial_state_def)
  from run_submits_regions [OF assms(1,2) a room inv]
  have rl: "regionList (run fhe ?tk initial_state) = rev (remdups (rev (region_codes ?tk)))"
    by (simp add: initial_state_def)
  have reach: "reachable fhe (run fhe ?tk initial_state)"
    by (rule reachable_run [OF reachable_init])
  have st: "\<forall>c. encryptedRegionStats (run fhe ?tk initial_state) c =
              (if c \<in> set (region_codes ?tk) then asEuint32 fhe 0 else 0)"
    using region_stats_registered [OF reach] rl by simp
  from e rl st run_submits_split(2) [OF assms(3), of fhe] show ?thesis by simp
qed

text \<open>
  The theorem at the specification's example: the region codes EU-1, EU-1, AS-2 leave
  the list EU-1, AS-2 and the count 3.
\<close>

theorem regions_registered_once_witness:
  "\<not> isInitialized stub_fhe 0 \<and> isInitialized stub_fhe (asEuint32 stub_fhe 0) \<and>
   all_submits [(stub_tx 10 0, Submit 1 2 3 4 ''EU-1''), (stub_tx 11 0, Submit 5 6 7 8 ''EU-1''),
                (stub_tx 10 0, Submit 9 9 9 9 ''AS-2'')] \<and>
   regionList
     (run stub_fhe [(stub_tx 10 0, Submit 1 2 3 4 ''EU-1''), (stub_tx 11 0, Submit 5 6 7 8 ''EU-1''),
                    (stub_tx 10 0, Submit 9 9 9 9 ''AS-2'')] initial_state) = [''EU-1'', ''AS-2''] \<and>
   unat (observationCount
     (run stub_fhe [(stub_tx 10 0, Submit 1 2 3 4 ''EU-1''), (stub_tx 11 0, Submit 5 6 7 8 ''EU-1''),
                    (stub_tx 10 0, Submit 9 9 9 9 ''AS-2'')] initial_state)) = 3 \<and>
   encryptedRegionStats
     (run stub_fhe [(stub_tx 10 0, Submit 1 2 3 4 ''EU-1''), (stub_tx 11 0, Submit 5 6 7 8 ''EU-1''),
                    (stub_tx 10 0, Submit 9 9 9 9 ''AS-2'')] initial_state) ''AS-2'' =
     asEuint32 stub_fhe 0"
  using regions_registered_once
    [of stub_fhe "[(stub_tx 10 0, Submit 1 2 3 4 ''EU-1''), (stub_tx 11 0, Submit 5 6 7 8 ''EU-1''),
                   (stub_tx 10 0, Submit 9 9 9 9 ''AS-2'')]"]
  by (simp add: stub_defs all_submits_def)

text \<open>
  C8 fails on the code: the sum of a region is never accumulated. Two observations are
  submitted to the region EU-1, with the brightness handles 8 and 5 (the values 7 and 4
  under the pass-through library). The sum stored for the region is still the encryption
  of zero written at registration, and \<open>calculateRegionalBrightness\<close> returns
  \<open>FHE.div\<close> of that encrypted zero and the encryption of the global count 2 - here the
  encryption of zero again - and not the sum of what was submitted divided by the count.
\<close>

theorem regionalAverage_sum_never_accumulated:
  "encryptedBrightness (encryptedObservations
     (run stub_fhe [(stub_tx 10 0, Submit 8 2 3 4 ''EU-1''),
        (stub_tx 11 0, Submit 5 6 7 8 ''EU-1'')] initial_state) 1) = 8 \<and>
   encryptedBrightness (encryptedObservations
     (run stub_fhe [(stub_tx 10 0, Submit 8 2 3 4 ''EU-1''),
        (stub_tx 11 0, Submit 5 6 7 8 ''EU-1'')] initial_state) 2) = 5 \<and>
   observationCount (run stub_fhe [(stub_tx 10 0, Submit 8 2 3 4 ''EU-1''),
        (stub_tx 11 0, Submit 5 6 7 8 ''EU-1'')] initial_state) = 2 \<and>
   encryptedRegionStats (run stub_fhe [(stub_tx 10 0, Submit 8 2 3 4 ''EU-1''),
        (stub_tx 11 0, Submit 5 6 7 8 ''EU-1'')] initial_state) ''EU-1'' = asEuint32 stub_fhe 0 \<and>
   map_sum id fst (calculateRegionalBrightness stub_fhe
     (run stub_fhe [(stub_tx 10 0, Submit 8 2 3 4 ''EU-1''),
        (stub_tx 11 0, Submit 5 6 7 8 ''EU-1'')] initial_state) ''EU-1'') =
     Inr (FHE_div stub_fhe (asEuint32 stub_fhe 0) (asEuint32 stub_fhe 2)) \<and>
   FHE_div stub_fhe (asEuint32 stub_fhe 0) (asEuint32 stub_fhe 2) = asEuint32 stub_fhe 0 \<and>
   FHE_div stub_fhe (asEuint32 stub_fhe 0) (asEuint32 stub_fhe 2) \<noteq>
     FHE_div stub_fhe (asEuint32 stub_fhe (7 + 4)) (asEuint32 stub_fhe 2)"
  by (simp add: contract_defs stub_defs decode_sample Let_def)

text \<open>
  C9, as the code has it. The readers have no existence check. In a reachable state, for
  an identity that no submission has assigned (zero, or above the count), the getter of
  the encrypted record returns the all-zero record, and \<open>getDecryptedObservation\<close>
  returns the five fields of the stored decrypted record; they are all zero, with the
  flag false, whenever the stored flag is false.
\<close>

theorem getters_return_stored_record:
  assumes "reachable fhe s" "i = 0 \<or> observationCount s < i"
  shows "getEncryptedObservation s i = Inr zero_encrypted \<and>
         getDecryptedObservation s i =
           Inr (brightness (decryptedObservations s i), latitude (decryptedObservations s i),
                longitude (decryptedObservations s i), timestamp (decryptedObservations s i),
                isRevealed (decryptedObservations s i)) \<and>
         (\<not> isRevealed (decryptedObservations s i) \<longrightarrow>
            getDecryptedObservation s i = Inr (0, 0, 0, 0, False))"
proof (intro conjI impI)
  show "getEncryptedObservation s i = Inr zero_encrypted"
    using unassigned_encrypted_zero [OF assms] by (simp add: getEncryptedObservation_def)
  show "getDecryptedObservation s i =
           Inr (brightness (decryptedObservations s i), latitude (decryptedObservations s i),
                longitude (decryptedObservations s i), timestamp (decryptedObservations s i),
                isRevealed (decryptedObservations s i))"
    by (simp add: getDecryptedObservation_def Let_def)
  assume "\<not> isRevealed (decryptedObservations s i)"
  from unrevealed_decrypted_zero [OF assms(1) this]
  show "getDecryptedObservation s i = Inr (0, 0, 0, 0, False)"
    by (simp add: getDecryptedObservation_def Let_def zero_decrypted_def)
qed

text \<open>
  The theorem at work, at the identity 5, never assigned: with one observation submitted
  both readers return zeros; on a ledger where a reveal of 5 was requested and fulfilled,
  \<open>getDecryptedObservation\<close> returns the values written by the fulfilment.
\<close>

theorem getters_return_stored_record_witness:
  "reachable stub_fhe (run stub_fhe [(stub_tx 10 0, Submit 1 2 3 4 ''EU-1'')] initial_state) \<and>
   observationCount (run stub_fhe [(stub_tx 10 0, Submit 1 2 3 4 ''EU-1'')] initial_state) < 5 \<and>
   \<not> isRevealed (decryptedObservations (run stub_fhe [(stub_tx 10 0, Submit 1 2 3 4 ''EU-1'')] initial_state) 5) \<and>
   getEncryptedObservation (run stub_fhe [(stub_tx 10 0, Submit 1 2 3 4 ''EU-1'')] initial_state) 5 = Inr zero_encrypted \<and>
   getDecryptedObservation (run stub_fhe [(stub_tx 10 0, Submit 1 2 3 4 ''EU-1'')] initial_state) 5 = Inr (0, 0, 0, 0, False) \<and>
   reachable stub_fhe (run stub_fhe [(stub_tx 10 7, RequestReveal 5),
        (stub_tx 11 0, Fulfill 7 sample_cleartexts [])] initial_state) \<and>
   observationCount (run stub_fhe [(stub_tx 10 7, RequestReveal 5),
        (stub_tx 11 0, Fulfill 7 sample_cleartexts [])] initial_state) < 5 \<and>
   getEncryptedObservation (run stub_fhe [(stub_tx 10 7, RequestReveal 5),
        (stub_tx 11 0, Fulfill 7 sample_cleartexts [])] initial_state) 5 = Inr zero_encrypted \<and>
   getDecryptedObservation (run stub_fhe [(stub_tx 10 7, RequestReveal 5),
        (stub_tx 11 0, Fulfill 7 sample_cleartexts [])] initial_state) 5 = Inr (21, 48, 2, 1700000000, True)"
proof -
  let ?s = "(run stub_fhe [(stub_tx 10 0, Submit 1 2 3 4 ''EU-1'')] initial_state)"
  let ?p = "(run stub_fhe [(stub_tx 10 7, RequestReveal 5),
        (stub_tx 11 0, Fulfill 7 sample_cleartexts [])] initial_state)"
  have r: "reachable stub_fhe ?s" "reachable stub_fhe ?p"
    by (rule reachable_run [OF reachable_init])+
  have lt: "5 = 0 \<or> observationCount ?s < 5" "5 = 0 \<or> observationCount ?p < 5"
    by (simp_all add: contract_defs stub_defs decode_sample Let_def)
  show ?thesis
    using r getters_return_stored_record [OF r(1) lt(1)]
      getters_return_stored_record [OF r(2) lt(2)]
    by (simp add: contract_defs stub_defs decode_sample float_to_uint256_def Let_def)
qed

text \<open>
  C9 as the specification words it fails: with one observation submitted, neither reader
  fails on the identity 5.
\<close>

theorem getters_unassigned_not_NotFound:
  "\<not> isl (getEncryptedObservation (run stub_fhe [(stub_tx 10 0, Submit 1 2 3 4 ''EU-1'')] initial_state) 5) \<and>
   getDecryptedObservation (run stub_fhe [(stub_tx 10 0, Submit 1 2 3 4 ''EU-1'')] initial_state) 5 = Inr (0, 0, 0, 0, False)"
  by (simp add: contract_defs stub_defs decode_sample Let_def)

text \<open>
  C10, as the code has it. \<open>requestObservationDecryption\<close> never fails with \<open>NotFound\<close>.
  In a reachable state, for an identity that no submission has assigned (zero, or above the
  count), its one guard is the revealed flag of the stored decrypted record. When the flag
  is true the call fails with "Already decrypted". When it is false, the stored record is
  the all-zero one, the request is dispatched over four zero handles, and once the library
  has issued a request identity the correlation to the identity is stored and
  \<open>DecryptionRequested\<close> is emitted; the call reverts if the library does. For the
  identity zero the flag is never set, and the correlation stored is the value zero, on
  which a later \<open>decryptObservation\<close> fails with "Invalid request".
\<close>

theorem requestReveal_unassigned_guarded_by_flag:
  assumes "reachable fhe s" "i = 0 \<or> observationCount s < i"
  shows "requestObservationDecryption fhe tx s i \<noteq> Inl NotFound \<and>
         (isRevealed (decryptedObservations s i) \<longrightarrow>
            requestObservationDecryption fhe tx s i = Inl AlreadyRevealed) \<and>
         (\<not> isRevealed (decryptedObservations s i) \<longrightarrow>
            decryptedObservations s i = zero_decrypted \<and>
            requestObservationDecryption fhe tx s i =
              (case requestDecryption tx
                      [toBytes32 fhe 0, toBytes32 fhe 0, toBytes32 fhe 0, toBytes32 fhe 0] of
                 None \<Rightarrow> Inl LibraryRevert
               | Some r \<Rightarrow>
                   Inr (s\<lparr>requestToObservationId := (requestToObservationId s)(r := i),
                          events := events s @ [DecryptionRequested i]\<rparr>))) \<and>
         (i = 0 \<longrightarrow> \<not> isRevealed (decryptedObservations s i)) \<and>
         (i = 0 \<and> requestObservationDecryption fhe tx s i = Inr s2 \<and>
          requestDecryption tx [toBytes32 fhe 0, toBytes32 fhe 0, toBytes32 fhe 0, toBytes32 fhe 0] = Some q \<longrightarrow>
            decryptObservation fheU s2 q cU pU = Inl UnknownRequest)"
proof -
  have enc: "encryptedObservations s i = zero_encrypted"
    by (rule unassigned_encrypted_zero [OF assms])
  have a: "requestObservationDecryption fhe tx s i \<noteq> Inl NotFound"
    by (auto simp: requestObservationDecryption_def onlyObserver_def Let_def
             split: option.splits)
  have b: "isRevealed (decryptedObservations s i) \<longrightarrow>
            requestObservationDecryption fhe tx s i = Inl AlreadyRevealed"
    by (simp add: requestObservationDecryption_def onlyObserver_def Let_def)
  have c: "\<not> isRevealed (decryptedObservations s i) \<longrightarrow>
            decryptedObservations s i = zero_decrypted \<and>
            requestObservationDecryption fhe tx s i =
              (case requestDecryption tx
                      [toBytes32 fhe 0, toBytes32 fhe 0, toBytes32 fhe 0, toBytes32 fhe 0] of
                 None \<Rightarrow> Inl LibraryRevert
               | Some r \<Rightarrow>
                   Inr (s\<lparr>requestToObservationId := (requestToObservationId s)(r := i),
                          events := events s @ [DecryptionRequested i]\<rparr>))"
    using enc unrevealed_decrypted_zero [OF assms(1), of i]
    by (auto simp: requestObservationDecryption_def onlyObserver_def Let_def zero_encrypted_def
             split: option.splits)
  have d: "i = 0 \<longrightarrow> \<not> isRevealed (decryptedObservations s i)"
    using zero_never_revealed [OF assms(1)] by (auto simp: zero_decrypted_def)
  have e: "i = 0 \<and> requestObservationDecryption fhe tx s i = Inr s2 \<and>
          requestDecryption tx [toBytes32 fhe 0, toBytes32 fhe 0, toBytes32 fhe 0, toBytes32 fhe 0] = Some q \<longrightarrow>
            decryptObservation fheU s2 q cU pU = Inl UnknownRequest"
  proof (intro impI)
    assume h: "i = 0 \<and> requestObservationDecryption fhe tx s i = Inr s2 \<and>
          requestDecryption tx [toBytes32 fhe 0, toBytes32 fhe 0, toBytes32 fhe 0, toBytes32 fhe 0] = Some q"
    from h have i0: "i = 0" and res: "requestObservationDecryption fhe tx s i = Inr s2"
      and lib: "requestDecryption tx
          [toBytes32 fhe 0, toBytes32 fhe 0, toBytes32 fhe 0, toBytes32 fhe 0] = Some q"
      by blast+
    from i0 d have "\<not> isRevealed (decryptedObservations s i)" by simp
    with c have "requestObservationDecryption fhe tx s i =
              (case requestDecryption tx
                      [toBytes32 fhe 0, toBytes32 fhe 0, toBytes32 fhe 0, toBytes32 fhe 0] of
                 None \<Rightarrow> Inl LibraryRevert
               | Some r \<Rightarrow>
                   Inr (s\<lparr>requestToObservationId := (requestToObservationId s)(r := i),
                          events := events s @ [DecryptionRequested i]\<rparr>))" by simp
    with res lib have "s2 = s\<lparr>requestToObservationId := (requestToObservationId s)(q := i),
                          events := events s @ [DecryptionRequested i]\<rparr>" by simp
    with i0 have "requestToObservationId s2 q = 0" by simp
    then show "decryptObservation fheU s2 q cU pU = Inl UnknownRequest"
      by (simp add: decryptObservation_def decryptObservation_body_def Let_def)
  qed
  from a b c d e show ?thesis by blast
qed

text \<open>
  The theorem at work. With one observation submitted, a reveal of identity 5 is
  requested, the library answers with the request identity 7, and the correlation from 7
  to 5 is stored; a reveal of identity 0, answered with 9, stores zero, and fulfilling 9
  fails as unknown. On a ledger where identity 5 was requested and fulfilled before any
  submission, a further request for 5 is refused as already revealed.
\<close>

theorem requestReveal_unassigned_guarded_by_flag_witness:
  "reachable stub_fhe (run stub_fhe [(stub_tx 10 0, Submit 1 2 3 4 ''EU-1'')] initial_state) \<and>
   observationCount (run stub_fhe [(stub_tx 10 0, Submit 1 2 3 4 ''EU-1'')] initial_state) < 5 \<and>
   \<not> isRevealed (decryptedObservations (run stub_fhe [(stub_tx 10 0, Submit 1 2 3 4 ''EU-1'')] initial_state) 5) \<and>
   requestObservationDecryption stub_fhe (stub_tx 11 7) (run stub_fhe [(stub_tx 10 0, Submit 1 2 3 4 ''EU-1'')] initial_state) 5 =
   Inr (run stub_fhe [(stub_tx 10 0, Submit 1 2 3 4 ''EU-1''), (stub_tx 11 7, RequestReveal 5)] initial_state) \<and>
   requestToObservationId
     (run stub_fhe [(stub_tx 10 0, Submit 1 2 3 4 ''EU-1''), (stub_tx 11 7, RequestReveal 5)] initial_state) 7 = 5 \<and>
   requestObservationDecryption stub_fhe (stub_tx 11 9) (run stub_fhe [(stub_tx 10 0, Submit 1 2 3 4 ''EU-1'')] initial_state) 0 =
   Inr (run stub_fhe [(stub_tx 10 0, Submit 1 2 3 4 ''EU-1''), (stub_tx 11 9, RequestReveal 0)] initial_state) \<and>
   requestDecryption (stub_tx 11 9) [0, 0, 0, 0] = Some 9 \<and>
   decryptObservation stub_fhe
     (run stub_fhe [(stub_tx 10 0, Submit 1 2 3 4 ''EU-1''), (stub_tx 11 9, RequestReveal 0)] initial_state)
     9 sample_cleartexts [] = Inl UnknownRequest \<and>
   reachable stub_fhe (run stub_fhe [(stub_tx 10 7, RequestReveal 5),
        (stub_tx 11 0, Fulfill 7 sample_cleartexts [])] initial_state) \<and>
   observationCount (run stub_fhe [(stub_tx 10 7, RequestReveal 5),
        (stub_tx 11 0, Fulfill 7 sample_cleartexts [])] initial_state) < 5 \<and>
   isRevealed (decryptedObservations (run stub_fhe [(stub_tx 10 7, RequestReveal 5),
        (stub_tx 11 0, Fulfill 7 sample_cleartexts [])] initial_state) 5) \<and>
   requestObservationDecryption stub_fhe (stub_tx 10 8) (run stub_fhe [(stub_tx 10 7, RequestReveal 5),
        (stub_tx 11 0, Fulfill 7 sample_cleartexts [])] initial_state) 5 = Inl AlreadyRevealed"
proof -
  let ?s = "(run stub_fhe [(stub_tx 10 0, Submit 1 2 3 4 ''EU-1'')] initial_state)"
  let ?p = "(run stub_fhe [(stub_tx 10 7, RequestReveal 5),
        (stub_tx 11 0, Fulfill 7 sample_cleartexts [])] initial_state)"
  have r: "reachable stub_fhe ?s" "reachable stub_fhe ?p"
    by (rule reachable_run [OF reachable_init])+
  have lt: "5 = 0 \<or> observationCount ?s < 5" "(0::uint256) = 0 \<or> observationCount ?s < 0"
      "5 = 0 \<or> observationCount ?p < 5"
    by (simp_all add: contract_defs stub_defs decode_sample Let_def)
  show ?thesis
    using r
      requestReveal_unassigned_guarded_by_flag [OF r(1) lt(1), where tx = "stub_tx 11 7"]
      requestReveal_unassigned_guarded_by_flag [OF r(1) lt(2), where tx = "stub_tx 11 9"
        and ?s2.0 = "run stub_fhe [(stub_tx 10 0, Submit 1 2 3 4 ''EU-1''), (stub_tx 11 9, RequestReveal 0)] initial_state"
        and q = 9 and fheU = stub_fhe and cU = sample_cleartexts and pU = "[]"]
      requestReveal_unassigned_guarded_by_flag [OF r(2) lt(3), where tx = "stub_tx 10 8"]
    by (simp add: contract_defs stub_defs decode_sample Let_def)
qed

text \<open>
  C10 as stated fails where the record of a never-assigned identity is no longer the
  default one. On the empty ledger a reveal of identity 5 is requested and fulfilled; the
  count is still zero, yet a further request for 5 is refused with "Already decrypted":
  nothing is dispatched and no correlation is stored under the identity 8 it would have
  been given.
\<close>

theorem requestReveal_unassigned_refused_once_revealed:
  "observationCount (run stub_fhe [(stub_tx 10 7, RequestReveal 5),
        (stub_tx 11 0, Fulfill 7 sample_cleartexts [])] initial_state) = 0 \<and>
   requestObservationDecryption stub_fhe (stub_tx 10 8) (run stub_fhe [(stub_tx 10 7, RequestReveal 5),
        (stub_tx 11 0, Fulfill 7 sample_cleartexts [])] initial_state) 5 = Inl AlreadyRevealed \<and>
   requestToObservationId
     (run stub_fhe [(stub_tx 10 7, RequestReveal 5),
        (stub_tx 11 0, Fulfill 7 sample_cleartexts []),
        (stub_tx 10 8, RequestReveal 5)] initial_state) 8 = 0"
  by (simp add: contract_defs stub_defs decode_sample Let_def)

end
